theory Spec2Isabelle
  imports Main "HOL-Library.List_Lexorder"
begin

section \<open>JavaScript values used by the build and publish scripts\<close>

text \<open>
  A shallow embedding of the two Node scripts of the repository (the build script with \<^verbatim>\<open>validateManifest\<close>,
  \<^verbatim>\<open>compareVersions\<close>, \<^verbatim>\<open>synchronizeVersions\<close>, \<^verbatim>\<open>main\<close>, and the publish script with
  \<^verbatim>\<open>getAccessToken\<close>, \<^verbatim>\<open>ensureAccessToken\<close>, \<^verbatim>\<open>uploadToChromeWebStore\<close>, \<^verbatim>\<open>main\<close>)
  as HOL functions. Conventions of the embedding:
  \<^item> a JavaScript string is a \<open>string\<close>; the characters are taken from ASCII, so
    \<^verbatim>\<open>toLowerCase\<close> maps \<open>A..Z\<close> and \<^verbatim>\<open>\s\<close> is tab, line feed, vertical tab, form feed,
    carriage return and space; \<^verbatim>\<open>.length\<close> is \<open>length\<close>;
  \<^item> a parsed JSON document is a \<open>json\<close> value; numbers are the integers (a number with
    a fraction or an exponent is outside the model); an object is the list of its own
    properties in enumeration order, without repeated keys;
  \<^item> a thrown exception is the \<open>Inl\<close> of a sum; console output is not part of the state.
\<close>

datatype json =
    JNull
  | JBool bool
  | JNum int
  | JStr string
  | JArr "json list"
  | JObj "(string \<times> json) list"

type_synonym obj = "(string \<times> json) list"

datatype exn = Error string | TypeError string | SyntaxError string

fun message :: "exn \<Rightarrow> string" where
  "message (Error m) = m"
| "message (TypeError m) = m"
| "message (SyntaxError m) = m"

text \<open>Property read \<^verbatim>\<open>o.k\<close> on an object (\<open>None\<close> is \<^verbatim>\<open>undefined\<close>), and \<^verbatim>\<open>o.k = v\<close>.\<close>

definition field :: "obj \<Rightarrow> string \<Rightarrow> json option" where
  "field ob k = map_of ob k"

fun setField :: "string \<Rightarrow> json \<Rightarrow> obj \<Rightarrow> obj" where
  "setField k v [] = [(k, v)]"
| "setField k v ((k', v') # rest) =
     (if k = k' then (k, v) # rest else (k', v') # setField k v rest)"

text \<open>Truthiness of a value, as \<^verbatim>\<open>!x\<close> and \<^verbatim>\<open>x || d\<close> see it.\<close>

fun truthy :: "json \<Rightarrow> bool" where
  "truthy JNull = False"
| "truthy (JBool b) = b"
| "truthy (JNum n) = (n \<noteq> 0)"
| "truthy (JStr s) = (s \<noteq> [])"
| "truthy (JArr xs) = True"
| "truthy (JObj ob) = True"

subsection \<open>Strings\<close>

definition isDigit :: "char \<Rightarrow> bool" where
  "isDigit c = (48 \<le> (of_char c :: nat) \<and> (of_char c :: nat) \<le> 57)"

text \<open>The test \<^verbatim>\<open>/^\d+$/.test(part)\<close>.\<close>

definition allDigits :: "string \<Rightarrow> bool" where
  "allDigits s = (s \<noteq> [] \<and> list_all isDigit s)"

text \<open>
  \<^verbatim>\<open>parseInt(part, 10)\<close> on a string of decimal digits (the only strings the validator
  gives it): the number the digits denote. The result is exact as a double up to \<open>2^53\<close>;
  above that the source only compares it with 0 and 65535, which rounding does not change.
\<close>

definition decimalValue :: "string \<Rightarrow> nat" where
  "decimalValue s = foldl (\<lambda>acc c. 10 * acc + ((of_char c :: nat) - 48)) 0 s"

text \<open>The decimal numeral of a natural number, as a template literal prints a length.\<close>

fun digitsOf :: "nat \<Rightarrow> string" where
  "digitsOf n =
     (if n < 10 then [char_of (48 + n)]
      else digitsOf (n div 10) @ [char_of (48 + n mod 10)])"

declare digitsOf.simps [simp del]

text \<open>\<^verbatim>\<open>s.split(c)\<close> for a one-character separator: never empty, \<^verbatim>\<open>"".split(".")\<close> is \<^verbatim>\<open>[""]\<close>.\<close>

fun split :: "char \<Rightarrow> string \<Rightarrow> string list" where
  "split c [] = [[]]"
| "split c (x # xs) =
     (if x = c then [] # split c xs
      else (case split c xs of
              [] \<Rightarrow> [[x]]
            | p # ps \<Rightarrow> (x # p) # ps))"

fun join :: "string \<Rightarrow> string list \<Rightarrow> string" where
  "join sep [] = []"
| "join sep [x] = x"
| "join sep (x # y # ys) = x @ sep @ join sep (y # ys)"

definition startsWith :: "string \<Rightarrow> string \<Rightarrow> bool" where
  "startsWith s p = (take (length p) s = p)"

definition endsWith :: "string \<Rightarrow> string \<Rightarrow> bool" where
  "endsWith s p = (length p \<le> length s \<and> drop (length s - length p) s = p)"

text \<open>A word between single quotes, as the messages of the scripts print field names.\<close>

definition quoted :: "string \<Rightarrow> string" where
  "quoted s = CHR 0x27 # s @ [CHR 0x27]"

text \<open>\<^verbatim>\<open>s.includes(p)\<close>.\<close>

fun includesStr :: "string \<Rightarrow> string \<Rightarrow> bool" where
  "includesStr [] p = (p = [])"
| "includesStr (x # xs) p = (startsWith (x # xs) p \<or> includesStr xs p)"

definition isSpace :: "char \<Rightarrow> bool" where
  "isSpace c = ((of_char c :: nat) \<in> {9, 10, 11, 12, 13, 32})"

definition lowerChar :: "char \<Rightarrow> char" where
  "lowerChar c =
     (if 65 \<le> (of_char c :: nat) \<and> (of_char c :: nat) \<le> 90
      then char_of ((of_char c :: nat) + 32) else c)"

definition toLowerCase :: "string \<Rightarrow> string" where
  "toLowerCase s = map lowerChar s"

definition trim :: "string \<Rightarrow> string" where
  "trim s = rev (dropWhile isSpace (rev (dropWhile isSpace s)))"

text \<open>\<^verbatim>\<open>s.replace(/\s+/g, "-")\<close>: every maximal run of whitespace becomes one hyphen.\<close>

function hyphenate :: "string \<Rightarrow> string" where
  "hyphenate [] = []"
| "hyphenate (c # cs) =
     (if isSpace c then CHR ''-'' # hyphenate (dropWhile isSpace cs)
      else c # hyphenate cs)"
  by pat_completeness auto
termination
  by (relation "measure length") (auto simp: length_dropWhile_le less_Suc_eq_le)

text \<open>\<^verbatim>\<open>s.replace(/\./g, "-")\<close>.\<close>

definition dotsToDashes :: "string \<Rightarrow> string" where
  "dotsToDashes s = map (\<lambda>c. if c = CHR ''.'' then CHR ''-'' else c) s"

text \<open>
  \<^verbatim>\<open>String(v)\<close> on a parsed JSON value. An array prints its elements separated by commas,
  \<^verbatim>\<open>null\<close> elements as the empty string; an object prints as \<^verbatim>\<open>[object Object]\<close>.
\<close>

definition intString :: "int \<Rightarrow> string" where
  "intString i = (if i < 0 then CHR ''-'' # digitsOf (nat (- i)) else digitsOf (nat i))"

fun js_String :: "json \<Rightarrow> string" where
  "js_String JNull = ''null''"
| "js_String (JBool b) = (if b then ''true'' else ''false'')"
| "js_String (JNum i) = intString i"
| "js_String (JStr s) = s"
| "js_String (JArr xs) =
     join '','' (map (\<lambda>x. if x = JNull then [] else js_String x) xs)"
| "js_String (JObj ob) = ''[object Object]''"

subsection \<open>JSON.stringify\<close>

text \<open>
  \<^verbatim>\<open>JSON.stringify(v)\<close> and \<^verbatim>\<open>JSON.stringify(v, null, 2)\<close> on a parsed JSON value. A string
  is quoted with the escapes of the standard: the double quote, the backslash, the five
  short escapes and \<^verbatim>\<open>\u00XX\<close> for the other characters below U+0020.
\<close>

definition hexDigit :: "nat \<Rightarrow> char" where
  "hexDigit n = (if n < 10 then char_of (48 + n) else char_of (87 + n))"

definition quoteChar :: "char \<Rightarrow> string" where
  "quoteChar c =
     (let n = (of_char c :: nat)
      in if n = 0x22 then [CHR 0x5C, CHR 0x22]
         else if n = 0x5C then [CHR 0x5C, CHR 0x5C]
         else if n = 8 then [CHR 0x5C, CHR ''b'']
         else if n = 12 then [CHR 0x5C, CHR ''f'']
         else if n = 10 then [CHR 0x5C, CHR ''n'']
         else if n = 13 then [CHR 0x5C, CHR ''r'']
         else if n = 9 then [CHR 0x5C, CHR ''t'']
         else if n < 32 then [CHR 0x5C, CHR ''u'', CHR ''0'', CHR ''0'',
                              hexDigit (n div 16), hexDigit (n mod 16)]
         else [c])"

definition quoteJSONString :: "string \<Rightarrow> string" where
  "quoteJSONString s = CHR 0x22 # concat (map quoteChar s) @ [CHR 0x22]"

fun stringify :: "json \<Rightarrow> string"
  and stringifyElements :: "json list \<Rightarrow> string list"
  and stringifyProperties :: "(string \<times> json) list \<Rightarrow> string list" where
  "stringify JNull = ''null''"
| "stringify (JBool b) = (if b then ''true'' else ''false'')"
| "stringify (JNum i) = intString i"
| "stringify (JStr s) = quoteJSONString s"
| "stringify (JArr xs) = ''['' @ join '','' (stringifyElements xs) @ '']''"
| "stringify (JObj ob) = ''{'' @ join '','' (stringifyProperties ob) @ ''}''"
| "stringifyElements [] = []"
| "stringifyElements (x # xs) = stringify x # stringifyElements xs"
| "stringifyProperties [] = []"
| "stringifyProperties ((k, v) # ps) =
     (quoteJSONString k @ '':'' @ stringify v) # stringifyProperties ps"

text \<open>The form with an indentation of two spaces; the first argument is the indentation
  of the enclosing level.\<close>

fun prettyPrint :: "nat \<Rightarrow> json \<Rightarrow> string"
  and prettyElements :: "nat \<Rightarrow> json list \<Rightarrow> string list"
  and prettyProperties :: "nat \<Rightarrow> (string \<times> json) list \<Rightarrow> string list" where
  "prettyPrint ind JNull = ''null''"
| "prettyPrint ind (JBool b) = (if b then ''true'' else ''false'')"
| "prettyPrint ind (JNum i) = intString i"
| "prettyPrint ind (JStr s) = quoteJSONString s"
| "prettyPrint ind (JArr xs) =
     (if xs = [] then ''[]''
      else ''['' @ [CHR 0x0A] @ join ('','' @ [CHR 0x0A]) (prettyElements (ind + 2) xs) @
           [CHR 0x0A] @ replicate ind CHR '' '' @ '']'')"
| "prettyPrint ind (JObj ob) =
     (if ob = [] then ''{}''
      else ''{'' @ [CHR 0x0A] @ join ('','' @ [CHR 0x0A]) (prettyProperties (ind + 2) ob) @
           [CHR 0x0A] @ replicate ind CHR '' '' @ ''}'')"
| "prettyElements ind [] = []"
| "prettyElements ind (x # xs) =
     (replicate ind CHR '' '' @ prettyPrint ind x) # prettyElements ind xs"
| "prettyProperties ind [] = []"
| "prettyProperties ind ((k, v) # ps) =
     (replicate ind CHR '' '' @ quoteJSONString k @ '': '' @ prettyPrint ind v)
     # prettyProperties ind ps"

section \<open>The file system\<close>

text \<open>
  A file holds either a JSON document (\<open>Json j\<close>: what \<^verbatim>\<open>JSON.stringify(j, null, 2)\<close> writes
  and \<^verbatim>\<open>JSON.parse\<close> reads back as \<open>j\<close>) or other text (\<open>Text s\<close>, which \<^verbatim>\<open>JSON.parse\<close>
  rejects). Paths are names relative to the directory of the scripts, which is also the
  working directory. The state keeps, besides the files, the list of the mutating
  file-system calls made so far, oldest first. Reads and writes of existing regular
  paths succeed; a missing or wrong-kind path fails where the source would throw.
  \<open>CreateArchive p\<close> is the call \<^verbatim>\<open>fs.createWriteStream(p)\<close> of \<^verbatim>\<open>createZipArchive\<close>: it
  records that the script asked for the archive under the name \<open>p\<close>, whether or not
  the stream could then be opened and written.
\<close>

datatype content = Json json | Text string

datatype node = File content | Dir

datatype effect =
    WriteFile string content
  | AppendFile string string
  | Unlink string
  | Mkdir string
  | CreateArchive string

record world =
  files :: "string \<Rightarrow> node option"
  trace :: "effect list"

definition existsSync :: "world \<Rightarrow> string \<Rightarrow> bool" where
  "existsSync w p = (files w p \<noteq> None)"

definition writeFileSync :: "string \<Rightarrow> content \<Rightarrow> world \<Rightarrow> world" where
  "writeFileSync p c w =
     w\<lparr>files := (files w)(p \<mapsto> File c), trace := trace w @ [WriteFile p c]\<rparr>"


section \<open>The build script\<close>

subsection \<open>validateManifest\<close>

record validation =
  errors :: "string list"
  warnings :: "string list"

text \<open>
  The loop over the version parts (\<^verbatim>\<open>for (const part of versionParts)\<close>), with the flag
  \<^verbatim>\<open>allZero\<close> and the errors pushed so far. Each \<^verbatim>\<open>break\<close> leaves the loop with the flag
  as it stands. \<^verbatim>\<open>num < 0\<close> cannot hold for a string of digits.
\<close>

fun versionLoop :: "string list \<Rightarrow> bool \<Rightarrow> string list \<Rightarrow> bool \<times> string list" where
  "versionLoop [] allZero errs = (allZero, errs)"
| "versionLoop (part # rest) allZero errs =
     (if \<not> allDigits part then (allZero, errs @ [''Version parts must be integers''])
      else
        let num = decimalValue part;
            allZero' = (if num \<noteq> 0 then False else allZero)
        in if num > 65535
           then (allZero', errs @ [''Version integers must be between 0 and 65535''])
           else if num \<noteq> 0 \<and> startsWith part ''0''
           then (allZero', errs @ [''Non-zero version integers cannot start with 0''])
           else versionLoop rest allZero' errs)"

text \<open>The errors pushed for a present \<^verbatim>\<open>version\<close>, given \<^verbatim>\<open>String(manifestJson.version)\<close>.\<close>

definition versionErrors :: "string \<Rightarrow> string list" where
  "versionErrors v =
     (let versionParts = split CHR ''.'' v
      in if length versionParts < 1 \<or> length versionParts > 4
         then [''Version must have 1 to 4 dot-separated integers'']
         else
           let (allZero, errs) = versionLoop versionParts True []
           in if allZero
              then errs @ [''Version cannot be all zeros (e.g., 0 or 0.0.0.0)'']
              else errs)"

text \<open>A VersionString in the sense of the data model: the validator has no complaint.\<close>

definition validVersion :: "string \<Rightarrow> bool" where
  "validVersion v = (versionErrors v = [])"

definition supportedFormats :: "string list" where
  "supportedFormats = [''.png'', ''.bmp'', ''.gif'', ''.ico'', ''.jpg'', ''.jpeg'']"

text \<open>The body of the loop over \<^verbatim>\<open>Object.entries(manifestJson.icons)\<close>.\<close>

fun iconWarnings :: "string \<times> json \<Rightarrow> string list" where
  "iconWarnings (sz, JStr iconPath) =
     (if \<not> list_ex (\<lambda>format. endsWith (toLowerCase iconPath) format) supportedFormats
      then [''Icon path for size '' @ sz @ '' must end in supported format ('' @
            join '', '' supportedFormats @ '')'']
      else [])"
| "iconWarnings (sz, v) = [''Icon path for size '' @ sz @ '' must be a string'']"

text \<open>
  The check of \<^verbatim>\<open>icons\<close>. \<^verbatim>\<open>typeof null\<close> is \<^verbatim>\<open>"object"\<close> and \<^verbatim>\<open>null\<close> is no array, so a
  \<^verbatim>\<open>null\<close> reaches \<^verbatim>\<open>manifestJson.icons["128"]\<close>, which throws a TypeError.
\<close>

fun checkIcons :: "json option \<Rightarrow> exn + string list" where
  "checkIcons None = Inr [''Missing '' @ quoted ''icons'' @ '' field required by Chrome Web Store'']"
| "checkIcons (Some (JObj icons)) =
     Inr ((case field icons ''128'' of
             None \<Rightarrow> [''Missing required 128x128 icon in '' @ quoted ''icons'' @ '' object'']
           | Some v \<Rightarrow>
               if \<not> truthy v then [''Missing required 128x128 icon in '' @ quoted ''icons'' @ '' object'']
               else [])
          @ concat (map iconWarnings icons))"
| "checkIcons (Some JNull) =
     Inl (TypeError (''Cannot read properties of null (reading '' @ quoted ''128'' @ '')''))"
| "checkIcons (Some v) = Inr [quoted ''icons'' @ '' must be an object'']"

fun checkDescription :: "json option \<Rightarrow> string list" where
  "checkDescription None = [''Missing '' @ quoted ''description'' @ '' field required by Chrome Web Store'']"
| "checkDescription (Some (JStr d)) =
     (if length d > 132
      then [quoted ''description'' @ '' exceeds 132 characters (current: '' @ digitsOf (length d) @ '')'']
      else [])"
| "checkDescription (Some v) = [quoted ''description'' @ '' must be a string'']"

text \<open>
  \<^verbatim>\<open>validateManifest(manifestJson, packageJson, manifestPath)\<close>. The source mutates
  \<^verbatim>\<open>manifestJson\<close> in place; the model returns the object as it stands at the end. The
  local variables \<^verbatim>\<open>errors\<close> and \<^verbatim>\<open>needsSave\<close> are threaded through the three checks of the
  platform keys in the order of the source; the write of the manifest comes last, after
  the check of \<^verbatim>\<open>icons\<close>, and does not look at \<^verbatim>\<open>errors\<close>.
\<close>

definition checkManifestVersion :: "obj \<Rightarrow> obj \<times> string list \<times> bool" where
  "checkManifestVersion manifestJson =
     (case field manifestJson ''manifest_version'' of
        None \<Rightarrow> (setField ''manifest_version'' (JNum 3) manifestJson, [], True)
      | Some v \<Rightarrow>
          if v \<noteq> JNum 3
          then (manifestJson, [''manifest_version must be the integer 3''], False)
          else (manifestJson, [], False))"

definition checkName :: "obj \<Rightarrow> obj \<Rightarrow> string list \<Rightarrow> bool \<Rightarrow> obj \<times> string list \<times> bool" where
  "checkName manifestJson packageJson errs needsSave =
     (case field manifestJson ''name'' of
        None \<Rightarrow>
          (case field packageJson ''name'' of
             Some (JStr n) \<Rightarrow>
               if n \<noteq> [] then (setField ''name'' (JStr n) manifestJson, errs, True)
               else (manifestJson, errs @ [''Missing required '' @ quoted ''name'' @ '' field''], needsSave)
           | _ \<Rightarrow> (manifestJson, errs @ [''Missing required '' @ quoted ''name'' @ '' field''], needsSave))
      | Some (JStr n) \<Rightarrow>
          if length n > 75
          then (manifestJson,
                errs @ [quoted ''name'' @ '' exceeds 75 characters (current: '' @
                        digitsOf (length n) @ '')''],
                needsSave)
          else (manifestJson, errs, needsSave)
      | Some v \<Rightarrow> (manifestJson, errs @ [quoted ''name'' @ '' must be a string''], needsSave))"

definition checkVersion :: "obj \<Rightarrow> string list \<Rightarrow> string list" where
  "checkVersion manifestJson errs =
     (case field manifestJson ''version'' of
        None \<Rightarrow> errs @ [''Missing required '' @ quoted ''version'' @ '' field'']
      | Some v \<Rightarrow> errs @ versionErrors (js_String v))"

definition validateManifest ::
  "obj \<Rightarrow> obj \<Rightarrow> string \<Rightarrow> world \<Rightarrow> exn + (validation \<times> obj \<times> world)" where
  "validateManifest manifestJson packageJson manifestPath w =
     (let (m1, e1, s1) = checkManifestVersion manifestJson;
          (m2, e2, needsSave) = checkName m1 packageJson e1 s1;
          e3 = checkVersion m2 e2;
          ws = checkDescription (field m2 ''description'')
      in case checkIcons (field m2 ''icons'') of
           Inl ex \<Rightarrow> Inl ex
         | Inr iw \<Rightarrow>
             Inr (\<lparr>errors = e3, warnings = ws @ iw\<rparr>, m2,
                  if needsSave then writeFileSync manifestPath (Json (JObj m2)) w else w))"

subsection \<open>compareVersions\<close>

text \<open>
  \<^verbatim>\<open>Number(part)\<close>: the value of a string of decimal digits (exact for the components
  of a VersionString, which are at most 65535), 0 for the empty string, and \<open>NaN\<close> for
  any other string of the model (signs, exponents, hexadecimal and surrounding blanks
  are not modelled; no such part occurs in a VersionString).
\<close>

datatype jsnum = Num nat | NaN

definition Number :: "string \<Rightarrow> jsnum" where
  "Number s = (if s = [] then Num 0 else if allDigits s then Num (decimalValue s) else NaN)"

text \<open>\<^verbatim>\<open>parts[i] || 0\<close>: 0 beyond the end of the array, for \<open>NaN\<close>, and for 0.\<close>

definition partOr0 :: "jsnum list \<Rightarrow> nat \<Rightarrow> nat" where
  "partOr0 parts i =
     (if i < length parts then (case parts ! i of Num n \<Rightarrow> n | NaN \<Rightarrow> 0) else 0)"

function compareLoop :: "jsnum list \<Rightarrow> jsnum list \<Rightarrow> nat \<Rightarrow> int" where
  "compareLoop parts1 parts2 i =
     (if i < max (length parts1) (length parts2)
      then
        let a = partOr0 parts1 i; b = partOr0 parts2 i
        in if a > b then 1 else if a < b then - 1 else compareLoop parts1 parts2 (Suc i)
      else 0)"
  by pat_completeness auto
termination
  by (relation "measure (\<lambda>(parts1, parts2, i). max (length parts1) (length parts2) - i)") auto

declare compareLoop.simps [simp del]

definition compareVersions :: "string \<Rightarrow> string \<Rightarrow> int" where
  "compareVersions v1 v2 =
     compareLoop (map Number (split CHR ''.'' v1)) (map Number (split CHR ''.'' v2)) 0"

subsection \<open>synchronizeVersions\<close>

text \<open>
  \<^verbatim>\<open>synchronizeVersions(packageJson, manifestJson, packageJsonPath, manifestJsonPath)\<close>.
  The first call of \<^verbatim>\<open>compareVersions\<close> applies \<^verbatim>\<open>.split\<close> to both versions, which throws
  a TypeError, before anything is written, unless both are strings (the one message of
  the model stands for the messages of the engine). The result is the highest version
  with the two objects and the state as the source leaves them.
\<close>

definition synchronizeVersions ::
  "obj \<Rightarrow> obj \<Rightarrow> string \<Rightarrow> string \<Rightarrow> world \<Rightarrow> exn + (string \<times> obj \<times> obj \<times> world)" where
  "synchronizeVersions packageJson manifestJson packageJsonPath manifestJsonPath w =
     (case (field packageJson ''version'', field manifestJson ''version'') of
        (Some (JStr pkgVersion), Some (JStr manVersion)) \<Rightarrow>
          let highestVersion =
                (if compareVersions pkgVersion manVersion \<ge> 0 then pkgVersion else manVersion);
              (packageJson', w1) =
                (if compareVersions pkgVersion highestVersion < 0
                 then let p = setField ''version'' (JStr highestVersion) packageJson
                      in (p, writeFileSync packageJsonPath (Json (JObj p)) w)
                 else (packageJson, w));
              (manifestJson', w2) =
                (if compareVersions manVersion highestVersion < 0
                 then let m = setField ''version'' (JStr highestVersion) manifestJson
                      in (m, writeFileSync manifestJsonPath (Json (JObj m)) w1)
                 else (manifestJson, w1))
          in Inr (highestVersion, packageJson', manifestJson', w2)
      | _ \<Rightarrow> Inl (TypeError ''version has no method split''))"


subsection \<open>Console colours and marks\<close>

definition RESET :: string where
  "RESET = CHR 0x1B # ''[0m''"

definition red :: "string \<Rightarrow> string" where
  "red text = CHR 0x1B # ''[1;31m'' @ text @ RESET"

definition green :: "string \<Rightarrow> string" where
  "green text = CHR 0x1B # ''[1;32m'' @ text @ RESET"

text \<open>The cross mark U+274C that starts the fatal messages, as its UTF-8 bytes.\<close>

definition crossMark :: string where
  "crossMark = [CHR 0xE2, CHR 0x9D, CHR 0x8C]"

definition newline :: string where
  "newline = [CHR 0x0A]"

subsection \<open>What the build script takes from outside the repository\<close>

text \<open>
  What streaming the archive of a directory to a path comes to:
  \<^item> \<open>Closed bytes\<close>: the write stream emitted \<^verbatim>\<open>close\<close> after the bytes of the archive;
  \<^item> \<open>Broken ex bytes\<close>: the archiver emitted \<^verbatim>\<open>error\<close> after some bytes were written (the
    write stream has created the file by then);
  \<^item> \<open>StreamError ex written\<close>: the write stream itself emitted \<^verbatim>\<open>error\<close>, either before the
    file could be opened (\<open>written = None\<close>: a path into a missing directory, a directory
    in the way, no permission) or after the bytes \<open>written = Some bytes\<close> (a full disk).
\<close>

datatype archived = Closed string | Broken exn string | StreamError exn "string option"

text \<open>
  The parts of a run that are not code of the repository are parameters:
  \<^item> \<open>viteOutDir\<close>: \<^verbatim>\<open>viteConfig.build?.outDir\<close> (\<open>None\<close> without configuration or setting);
  \<^item> \<open>bundler\<close>: the external build command, giving whether it exited with status 0 and
    the state it leaves;
  \<^item> \<open>archiver\<close>: what streaming the archive of a directory to a path comes to in a state
    (the state, the directory, the path);
  \<^item> \<open>globSync\<close>: the paths that match a pattern in a state.
\<close>

record externals =
  viteOutDir :: "string option"
  bundler :: "world \<Rightarrow> bool \<times> world"
  archiver :: "world \<Rightarrow> string \<Rightarrow> string \<Rightarrow> archived"
  globSync :: "string \<Rightarrow> world \<Rightarrow> string list"

text \<open>The text of a file, as \<^verbatim>\<open>fs.readFileSync(path, "utf8")\<close> gives it.\<close>

definition textOf :: "content \<Rightarrow> string" where
  "textOf c = (case c of Json j \<Rightarrow> prettyPrint 0 j | Text t \<Rightarrow> t)"

text \<open>\<^verbatim>\<open>fs.appendFileSync\<close>: creates the file when it is missing, fails on a directory.\<close>

definition appendFileSync :: "string \<Rightarrow> string \<Rightarrow> world \<Rightarrow> exn + world" where
  "appendFileSync p t w =
     (case files w p of
        Some Dir \<Rightarrow> Inl (Error ''EISDIR: illegal operation on a directory'')
      | Some (File c) \<Rightarrow>
          Inr (w\<lparr>files := (files w)(p \<mapsto> File (Text (textOf c @ t))),
                 trace := trace w @ [AppendFile p t]\<rparr>)
      | None \<Rightarrow>
          Inr (w\<lparr>files := (files w)(p \<mapsto> File (Text t)),
                 trace := trace w @ [AppendFile p t]\<rparr>))"

text \<open>\<^verbatim>\<open>fs.unlinkSync\<close>: removes a file, fails on a missing path and on a directory.\<close>

definition unlinkSync :: "string \<Rightarrow> world \<Rightarrow> exn + world" where
  "unlinkSync p w =
     (case files w p of
        Some (File c) \<Rightarrow>
          Inr (w\<lparr>files := (files w)(p := None), trace := trace w @ [Unlink p]\<rparr>)
      | Some Dir \<Rightarrow> Inl (Error ''EPERM: operation not permitted, unlink'')
      | None \<Rightarrow> Inl (Error ''ENOENT: no such file or directory, unlink''))"

definition mkdirSync :: "string \<Rightarrow> world \<Rightarrow> world" where
  "mkdirSync p w = w\<lparr>files := (files w)(p \<mapsto> Dir), trace := trace w @ [Mkdir p]\<rparr>"

text \<open>\<^verbatim>\<open>JSON.parse(fs.readFileSync(path, "utf8"))\<close> for a descriptor, which is a JSON object
  (section 6 of the specification); a document that is no object stops the model here.\<close>

definition readJsonObject :: "world \<Rightarrow> string \<Rightarrow> exn + obj" where
  "readJsonObject w p =
     (case files w p of
        None \<Rightarrow> Inl (Error ''ENOENT: no such file or directory, open'')
      | Some Dir \<Rightarrow> Inl (Error ''EISDIR: illegal operation on a directory, read'')
      | Some (File (Text t)) \<Rightarrow> Inl (SyntaxError ''Unexpected token in JSON'')
      | Some (File (Json (JObj ob))) \<Rightarrow> Inr ob
      | Some (File (Json j)) \<Rightarrow> Inl (TypeError ''descriptor is not an object''))"

subsection \<open>loadConfigs\<close>

record config =
  packageJson :: obj
  outputDir :: string
  manifestJson :: obj
  manifestJsonPath :: string

definition loadConfigs :: "externals \<Rightarrow> world \<Rightarrow> exn + config" where
  "loadConfigs ext w =
     (if \<not> existsSync w ''package.json''
      then Inl (Error (''File '' @ green ''package.json'' @ '' not found''))
      else
        (case readJsonObject w ''package.json'' of
           Inl ex \<Rightarrow> Inl ex
         | Inr pkg \<Rightarrow>
             (let outDir = (case viteOutDir ext of
                             None \<Rightarrow> ''dist''
                           | Some d \<Rightarrow> if d = [] then ''dist'' else d);
                  manifestPath = ''public/manifest.json''
              in if \<not> existsSync w manifestPath
                 then Inl (Error (''Manifest file '' @ green ''manifest.json'' @
                                  '' not found at '' @ manifestPath))
                 else
                   (case readJsonObject w manifestPath of
                      Inl ex \<Rightarrow> Inl ex
                    | Inr man \<Rightarrow>
                        Inr \<lparr>packageJson = pkg, outputDir = outDir,
                             manifestJson = man, manifestJsonPath = manifestPath\<rparr>))))"

subsection \<open>runViteBuild, createZipArchive, manageGitignore\<close>

definition runViteBuild :: "externals \<Rightarrow> world \<Rightarrow> exn option \<times> world" where
  "runViteBuild ext w =
     (case bundler ext w of
        (True, w') \<Rightarrow> (None, w')
      | (False, w') \<Rightarrow> (Some (Error (red (crossMark @ '' Vite build failed''))), w'))"

text \<open>
  How an awaited step of \<^verbatim>\<open>main\<close> ends: it returns, it throws inside the \<^verbatim>\<open>try\<close> of \<^verbatim>\<open>main\<close>
  (a synchronous throw or a rejected promise), or an error is raised outside it (an
  \<^verbatim>\<open>error\<close> event without a listener), which ends the process at once, past the \<^verbatim>\<open>catch\<close>.
\<close>

datatype ending = Finished | Threw exn | Crashed exn

text \<open>
  \<^verbatim>\<open>createZipArchive(outputDir, zipFilePath)\<close>: how it ends and the state after it. The
  promise awaited resolves on \<^verbatim>\<open>close\<close> of the write stream and rejects on \<^verbatim>\<open>error\<close> of the
  archiver; the write stream has no \<^verbatim>\<open>error\<close> listener, so an error of the stream is
  uncaught and no file is there unless bytes had been written.
\<close>

definition createZipArchive :: "externals \<Rightarrow> string \<Rightarrow> string \<Rightarrow> world \<Rightarrow> ending \<times> world" where
  "createZipArchive ext outDir zipFilePath w =
     (case archiver ext w outDir zipFilePath of
        Closed bytes \<Rightarrow>
          (Finished, w\<lparr>files := (files w)(zipFilePath \<mapsto> File (Text bytes)),
                       trace := trace w @ [CreateArchive zipFilePath]\<rparr>)
      | Broken ex bytes \<Rightarrow>
          (Threw ex, w\<lparr>files := (files w)(zipFilePath \<mapsto> File (Text bytes)),
                       trace := trace w @ [CreateArchive zipFilePath]\<rparr>)
      | StreamError ex None \<Rightarrow>
          (Crashed ex, w\<lparr>trace := trace w @ [CreateArchive zipFilePath]\<rparr>)
      | StreamError ex (Some bytes) \<Rightarrow>
          (Crashed ex, w\<lparr>files := (files w)(zipFilePath \<mapsto> File (Text bytes)),
                         trace := trace w @ [CreateArchive zipFilePath]\<rparr>))"

definition zipIgnorePattern :: "string \<Rightarrow> string" where
  "zipIgnorePattern packageName =
     newline @ newline @ ''# Generated by build.cjs'' @ newline @
     packageName @ ''-*.zip'' @ newline"

definition manageGitignore :: "externals \<Rightarrow> string \<Rightarrow> world \<Rightarrow> exn + world" where
  "manageGitignore ext packageName w =
     (let gitignorePath = ''.gitignore''
      in case files w gitignorePath of
           None \<Rightarrow>
             Inr (writeFileSync gitignorePath (Text (zipIgnorePattern packageName)) w)
         | Some Dir \<Rightarrow> Inl (Error ''EISDIR: illegal operation on a directory, read'')
         | Some (File c) \<Rightarrow>
             if \<not> includesStr (textOf c) (trim (zipIgnorePattern packageName))
             then appendFileSync gitignorePath (zipIgnorePattern packageName) w
             else Inr w)"

subsection \<open>The packaging step of main\<close>

text \<open>The name of the archive, as \<^verbatim>\<open>main\<close> of the build script computes it from the
  manifest's name and \<^verbatim>\<open>highestVersion\<close>.\<close>

definition slug :: "string \<Rightarrow> string" where
  "slug name = hyphenate (toLowerCase name)"

definition zipFileName :: "string \<Rightarrow> string \<Rightarrow> string" where
  "zipFileName name version =
     (let packageName = slug name;
          formattedVersion = ''v'' @ dotsToDashes version
      in packageName @ ''-'' @ formattedVersion @ ''.zip'')"

text \<open>\<^verbatim>\<open>oldZips.forEach((file) => fs.unlinkSync(file))\<close>: stops at the first failure.\<close>

fun unlinkAll :: "string list \<Rightarrow> world \<Rightarrow> exn option \<times> world" where
  "unlinkAll [] w = (None, w)"
| "unlinkAll (f # fs) w =
     (case unlinkSync f w of
        Inl ex \<Rightarrow> (Some ex, w)
      | Inr w' \<Rightarrow> unlinkAll fs w')"

text \<open>
  The last block of \<^verbatim>\<open>main\<close> (\<^verbatim>\<open>if (warnings.length === 0) { ... } else { ... }\<close>), given the
  warnings of the validation, the manifest and the highest version. It gives how the
  block ends and the state.
\<close>

definition packaging ::
  "externals \<Rightarrow> string list \<Rightarrow> obj \<Rightarrow> string \<Rightarrow> string \<Rightarrow> world \<Rightarrow> ending \<times> world" where
  "packaging ext warns manifest highestVersion outDir w =
     (if warns = [] then
        (case field manifest ''name'' of
           Some (JStr name) \<Rightarrow>
             let packageName = slug name;
                 zipName = zipFileName name highestVersion
             in if \<not> existsSync w zipName then
                  (case createZipArchive ext outDir zipName w of
                     (Threw ex, w1) \<Rightarrow> (Threw ex, w1)
                   | (Crashed ex, w1) \<Rightarrow> (Crashed ex, w1)
                   | (Finished, w1) \<Rightarrow>
                       let oldZips = filter (\<lambda>file. file \<noteq> zipName)
                                       (globSync ext (packageName @ ''-v*.zip'') w1)
                       in (case unlinkAll oldZips w1 of
                             (Some ex, w2) \<Rightarrow> (Threw ex, w2)
                           | (None, w2) \<Rightarrow>
                               (case manageGitignore ext packageName w2 of
                                  Inl ex \<Rightarrow> (Threw ex, w2)
                                | Inr w3 \<Rightarrow> (Finished, w3))))
                else (Finished, w)
         | _ \<Rightarrow> (Threw (TypeError ''toLowerCase is not a function''), w))
      else (Finished, w))"

subsection \<open>main of the build script\<close>

text \<open>How a script ends: normally (exit status 0), or with exit status 1 after the
  validation errors, after an exception caught by \<^verbatim>\<open>main\<close> (whose message is reported), or
  after an error raised outside the \<^verbatim>\<open>try\<close> of \<^verbatim>\<open>main\<close>, which the runtime reports.\<close>

datatype outcome = Completed | ValidationFailed "string list" | Fatal exn | Uncaught exn

fun exitCode :: "outcome \<Rightarrow> nat" where
  "exitCode Completed = 0"
| "exitCode (ValidationFailed es) = 1"
| "exitCode (Fatal ex) = 1"
| "exitCode (Uncaught ex) = 1"

definition buildMain :: "externals \<Rightarrow> world \<Rightarrow> outcome \<times> world" where
  "buildMain ext w =
     (case loadConfigs ext w of
        Inl ex \<Rightarrow> (Fatal ex, w)
      | Inr cfg \<Rightarrow>
          (case validateManifest (manifestJson cfg) (packageJson cfg) (manifestJsonPath cfg) w of
             Inl ex \<Rightarrow> (Fatal ex, w)
           | Inr (v, manifest, w1) \<Rightarrow>
               if length (errors v) > 0 then (ValidationFailed (errors v), w1)
               else
                 (case synchronizeVersions (packageJson cfg) manifest ''package.json''
                         (manifestJsonPath cfg) w1 of
                    Inl ex \<Rightarrow> (Fatal ex, w1)
                  | Inr (highestVersion, pkg', manifest', w2) \<Rightarrow>
                      let w3 = (if \<not> existsSync w2 (outputDir cfg)
                                then mkdirSync (outputDir cfg) w2 else w2)
                      in (case runViteBuild ext w3 of
                            (Some ex, w4) \<Rightarrow> (Fatal ex, w4)
                          | (None, w4) \<Rightarrow>
                              (case packaging ext (warnings v) manifest' highestVersion
                                      (outputDir cfg) w4 of
                                 (Threw ex, w5) \<Rightarrow> (Fatal ex, w5)
                               | (Crashed ex, w5) \<Rightarrow> (Uncaught ex, w5)
                               | (Finished, w5) \<Rightarrow> (Completed, w5))))))"


section \<open>The publish script\<close>

text \<open>
  An awaited promise resolves, rejects (the \<^verbatim>\<open>await\<close> throws), or never settles: the local
  listener of \<^verbatim>\<open>getRefreshToken\<close> has no timeout.
\<close>

datatype 'a promise = Resolved 'a | Rejected exn | Pending

text \<open>
  What \<^verbatim>\<open>fetch\<close> gives: a rejection (no response), or a response with \<^verbatim>\<open>response.ok\<close>, the
  text of its body, and the result of \<^verbatim>\<open>response.json()\<close>, which rejects with the parser's
  error when the body is not JSON. The scripts read the body through \<^verbatim>\<open>response.json()\<close>
  only.
\<close>

record response =
  ok :: bool
  body :: string
  jsonBody :: "exn + json"

datatype fetched = NetworkFailure exn | Response response

text \<open>
  The services outside the repository, as a run meets them: the reply to the \<open>k\<close>-th
  token request, the outcome of the \<open>k\<close>-th interactive authorization (the whole of
  \<^verbatim>\<open>getRefreshToken\<close> is library and network code), and the reply to the upload.
\<close>

record remote =
  tokenEndpoint :: "nat \<Rightarrow> fetched"
  authorization :: "nat \<Rightarrow> string promise"
  uploadEndpoint :: fetched

record penv =
  CLIENT_ID :: "string option"
  CLIENT_SECRET :: "string option"
  REFRESH_TOKEN :: "string option"
  EXTENSION_ID :: "string option"

text \<open>The state of a publish run: \<^verbatim>\<open>process.env\<close>, the files, and how many token requests,
  authorizations and uploads have been started.\<close>

record pstate =
  env :: penv
  disk :: world
  tokenFetches :: nat
  authorizations :: nat
  uploads :: nat

text \<open>\<^verbatim>\<open>!process.env.X\<close>: unset or empty.\<close>

definition unset :: "string option \<Rightarrow> bool" where
  "unset v = (case v of None \<Rightarrow> True | Some t \<Rightarrow> t = [])"

text \<open>A property read \<^verbatim>\<open>v.k\<close> on any parsed value: a TypeError on \<^verbatim>\<open>null\<close>, \<^verbatim>\<open>undefined\<close> on
  the other values that are no objects (for the names the scripts read).\<close>

fun getProp :: "json \<Rightarrow> string \<Rightarrow> exn + json option" where
  "getProp JNull k =
     Inl (TypeError (''Cannot read properties of null (reading '' @ quoted k @ '')''))"
| "getProp (JObj ob) k = Inr (field ob k)"
| "getProp v k = Inr None"

subsection \<open>getAccessToken\<close>

definition getAccessToken :: "remote \<Rightarrow> pstate \<Rightarrow> json option promise \<times> pstate" where
  "getAccessToken rem s =
     (let s' = s\<lparr>tokenFetches := Suc (tokenFetches s)\<rparr>
      in case tokenEndpoint rem (tokenFetches s) of
           NetworkFailure ex \<Rightarrow> (Rejected ex, s')
         | Response r \<Rightarrow>
             (case jsonBody r of
                Inl ex \<Rightarrow> (Rejected ex, s')
              | Inr data \<Rightarrow>
                  if \<not> ok r then
                    (case getProp data ''error'' of
                       Inl ex \<Rightarrow> (Rejected ex, s')
                     | Inr e \<Rightarrow>
                         if e = Some (JStr ''invalid_grant'')
                         then (Rejected (Error ''Invalid refresh token''), s')
                         else
                           (case getProp data ''error_description'' of
                              Inl ex \<Rightarrow> (Rejected ex, s')
                            | Inr None \<Rightarrow>
                                (Rejected (Error ''Failed to get access token''), s')
                            | Inr (Some d) \<Rightarrow>
                                if truthy d then (Rejected (Error (js_String d)), s')
                                else (Rejected (Error ''Failed to get access token''), s')))
                  else
                    (case getProp data ''access_token'' of
                       Inl ex \<Rightarrow> (Rejected ex, s')
                     | Inr t \<Rightarrow> (Resolved t, s'))))"

subsection \<open>getRefreshToken, saveRefreshToken\<close>

definition getRefreshToken :: "remote \<Rightarrow> pstate \<Rightarrow> string promise \<times> pstate" where
  "getRefreshToken rem s =
     (authorization rem (authorizations s), s\<lparr>authorizations := Suc (authorizations s)\<rparr>)"

text \<open>\<^verbatim>\<open>saveRefreshToken(refreshToken)\<close>: appends to \<^verbatim>\<open>.env\<close> when that file exists, and only
  prints the token otherwise.\<close>

definition saveRefreshToken :: "string \<Rightarrow> pstate \<Rightarrow> exn option \<times> pstate" where
  "saveRefreshToken refreshToken s =
     (if existsSync (disk s) ''.env''
      then
        (case appendFileSync ''.env''
                (newline @ ''REFRESH_TOKEN='' @ refreshToken @ newline) (disk s) of
           Inl ex \<Rightarrow> (Some ex, s)
         | Inr w' \<Rightarrow> (None, s\<lparr>disk := w'\<rparr>))
      else (None, s))"

subsection \<open>ensureAccessToken\<close>

text \<open>
  The three lines that occur twice in \<^verbatim>\<open>ensureAccessToken\<close>: await \<^verbatim>\<open>getRefreshToken\<close>, store
  the token in \<^verbatim>\<open>process.env.REFRESH_TOKEN\<close>, save it.
\<close>

definition authorize :: "remote \<Rightarrow> pstate \<Rightarrow> unit promise \<times> pstate" where
  "authorize rem s =
     (case getRefreshToken rem s of
        (Rejected ex, s1) \<Rightarrow> (Rejected ex, s1)
      | (Pending, s1) \<Rightarrow> (Pending, s1)
      | (Resolved refreshToken, s1) \<Rightarrow>
          let s2 = s1\<lparr>env := (env s1)\<lparr>REFRESH_TOKEN := Some refreshToken\<rparr>\<rparr>
          in (case saveRefreshToken refreshToken s2 of
                (Some ex, s3) \<Rightarrow> (Rejected ex, s3)
              | (None, s3) \<Rightarrow> (Resolved (), s3)))"

text \<open>
  The \<^verbatim>\<open>try\<close> block holds the first \<^verbatim>\<open>getAccessToken\<close> only; the \<^verbatim>\<open>catch\<close> looks at
  \<^verbatim>\<open>error.message\<close>, whatever raised the error.
\<close>

definition fetchWithRetry :: "remote \<Rightarrow> pstate \<Rightarrow> json option promise \<times> pstate" where
  "fetchWithRetry rem s =
     (case getAccessToken rem s of
        (Rejected error, s1) \<Rightarrow>
          if message error = ''Invalid refresh token''
          then
            (case authorize rem s1 of
               (Resolved u, s2) \<Rightarrow> getAccessToken rem s2
             | (Rejected ex, s2) \<Rightarrow> (Rejected ex, s2)
             | (Pending, s2) \<Rightarrow> (Pending, s2))
          else (Rejected error, s1)
      | (r, s1) \<Rightarrow> (r, s1))"

definition ensureAccessToken :: "remote \<Rightarrow> pstate \<Rightarrow> json option promise \<times> pstate" where
  "ensureAccessToken rem s =
     (if unset (REFRESH_TOKEN (env s))
      then
        (case authorize rem s of
           (Resolved u, s1) \<Rightarrow> fetchWithRetry rem s1
         | (Rejected ex, s1) \<Rightarrow> (Rejected ex, s1)
         | (Pending, s1) \<Rightarrow> (Pending, s1))
      else fetchWithRetry rem s)"

subsection \<open>uploadToChromeWebStore\<close>

text \<open>The error of the \<^verbatim>\<open>else\<close> branch, whose message holds \<^verbatim>\<open>JSON.stringify(result)\<close>.\<close>

definition uploadFailed :: "json \<Rightarrow> exn" where
  "uploadFailed result =
     Error (red (crossMark @ '' Upload failed: '' @ stringify result))"

definition uploadToChromeWebStore ::
  "remote \<Rightarrow> string \<Rightarrow> string \<Rightarrow> pstate \<Rightarrow> unit promise \<times> pstate" where
  "uploadToChromeWebStore rem zipFilePath extensionId s =
     (case ensureAccessToken rem s of
        (Rejected ex, s1) \<Rightarrow> (Rejected ex, s1)
      | (Pending, s1) \<Rightarrow> (Pending, s1)
      | (Resolved accessToken, s1) \<Rightarrow>
          (case files (disk s1) zipFilePath of
             None \<Rightarrow> (Rejected (Error ''ENOENT: no such file or directory, open''), s1)
           | Some Dir \<Rightarrow>
               (Rejected (Error ''EISDIR: illegal operation on a directory, read''), s1)
           | Some (File zipBytes) \<Rightarrow>
               (let s2 = s1\<lparr>uploads := Suc (uploads s1)\<rparr>
                in case uploadEndpoint rem of
                     NetworkFailure ex \<Rightarrow> (Rejected ex, s2)
                   | Response r \<Rightarrow>
                       (case jsonBody r of
                          Inl ex \<Rightarrow> (Rejected ex, s2)
                        | Inr result \<Rightarrow>
                            if \<not> ok r then (Rejected (uploadFailed result), s2)
                            else
                              (case getProp result ''uploadState'' of
                                 Inl ex \<Rightarrow> (Rejected ex, s2)
                               | Inr st \<Rightarrow>
                                   if st = Some (JStr ''SUCCESS'')
                                   then (Resolved (), s2)
                                   else (Rejected (uploadFailed result), s2))))))"

subsection \<open>main of the publish script\<close>

text \<open>The name of the archive, as \<^verbatim>\<open>main\<close> of the publish script computes it from the
  manifest alone; a name or a version that is no string makes the method call throw.\<close>

definition publishZipFileName :: "json \<Rightarrow> exn + string" where
  "publishZipFileName manifest =
     (case getProp manifest ''name'' of
        Inl ex \<Rightarrow> Inl ex
      | Inr (Some (JStr name)) \<Rightarrow>
          (let packageName = hyphenate (toLowerCase name)
           in case getProp manifest ''version'' of
                Inl ex \<Rightarrow> Inl ex
              | Inr (Some (JStr version)) \<Rightarrow>
                  (let formattedVersion = ''v'' @ dotsToDashes version
                   in Inr (packageName @ ''-'' @ formattedVersion @ ''.zip''))
              | Inr v \<Rightarrow> Inl (TypeError ''version.replace is not a function''))
      | Inr v \<Rightarrow> Inl (TypeError ''manifestJson.name.toLowerCase is not a function''))"

datatype published = Done | Failed exn | Hangs

definition publishMain :: "remote \<Rightarrow> pstate \<Rightarrow> published \<times> pstate" where
  "publishMain rem s =
     (if unset (CLIENT_ID (env s)) \<or> unset (CLIENT_SECRET (env s))
      then (Failed (Error ''CLIENT_ID and CLIENT_SECRET must be set in .env to proceed.''), s)
      else
        (case files (disk s) ''static/manifest.json'' of
           None \<Rightarrow>
             (Failed (Error (''Manifest file '' @ green ''manifest.json'' @ '' not found'')), s)
         | Some Dir \<Rightarrow>
             (Failed (Error ''EISDIR: illegal operation on a directory, read''), s)
         | Some (File (Text t)) \<Rightarrow> (Failed (SyntaxError ''Unexpected token in JSON''), s)
         | Some (File (Json manifest)) \<Rightarrow>
             (case publishZipFileName manifest of
                Inl ex \<Rightarrow> (Failed ex, s)
              | Inr zipName \<Rightarrow>
                  if \<not> existsSync (disk s) zipName
                  then (Failed (Error (''ZIP file '' @ green zipName @
                                       '' not found. Run build.js first.'')), s)
                  else
                    (case EXTENSION_ID (env s) of
                       None \<Rightarrow> (Done, s)
                     | Some extensionId \<Rightarrow>
                         if extensionId = [] then (Done, s)
                         else
                           (case uploadToChromeWebStore rem zipName extensionId s of
                              (Resolved u, s1) \<Rightarrow> (Done, s1)
                            | (Rejected ex, s1) \<Rightarrow> (Failed ex, s1)
                            | (Pending, s1) \<Rightarrow> (Hangs, s1))))))"

section \<open>Notions of the specification\<close>

text \<open>
  The components of a VersionString, and the comparison as the data model words it:
  component by component, a missing trailing component counting as 0. The shorter list
  is filled with zeros and the two lists are compared in the lexicographic order.
\<close>

definition components :: "string \<Rightarrow> nat list" where
  "components v = map decimalValue (split CHR ''.'' v)"

definition padTo :: "nat \<Rightarrow> nat list \<Rightarrow> nat list" where
  "padTo n xs = xs @ replicate (n - length xs) 0"

definition order3 :: "nat list \<Rightarrow> nat list \<Rightarrow> int" where
  "order3 xs ys = (if xs < ys then - 1 else if ys < xs then 1 else 0)"

definition specCompare :: "nat list \<Rightarrow> nat list \<Rightarrow> int" where
  "specCompare xs ys =
     (let n = max (length xs) (length ys) in order3 (padTo n xs) (padTo n ys))"

text \<open>The numbers \<^verbatim>\<open>compareVersions\<close> works with: \<^verbatim>\<open>part || 0\<close> for each part.\<close>

definition numbers :: "jsnum list \<Rightarrow> nat list" where
  "numbers parts = map (\<lambda>x. case x of Num n \<Rightarrow> n | NaN \<Rightarrow> 0) parts"

text \<open>
  Two version strings differ only by trailing zero components when the parts of one are
  the parts of the other followed by parts of value 0.
\<close>

definition zeroExtension :: "string \<Rightarrow> string \<Rightarrow> bool" where
  "zeroExtension a b =
     (let pa = split CHR ''.'' a; pb = split CHR ''.'' b
      in length pa \<le> length pb \<and> take (length pa) pb = pa \<and>
         list_all (\<lambda>z. decimalValue z = 0) (drop (length pa) pb))"

definition differOnlyByTrailingZeros :: "string \<Rightarrow> string \<Rightarrow> bool" where
  "differOnlyByTrailingZeros p m = (zeroExtension p m \<or> zeroExtension m p)"

text \<open>
  An auto-fill takes place in a validation when \<^verbatim>\<open>manifest_version\<close> is absent, or when
  \<^verbatim>\<open>name\<close> is absent and the project descriptor has a non-empty string as its name.
\<close>

definition autoFilled :: "obj \<Rightarrow> obj \<Rightarrow> bool" where
  "autoFilled manifest pkg =
     (field manifest ''manifest_version'' = None \<or>
      (field manifest ''name'' = None \<and>
       (case field pkg ''name'' of Some (JStr n) \<Rightarrow> n \<noteq> [] | _ \<Rightarrow> False)))"

section \<open>Concrete runs\<close>

text \<open>
  For the runs on concrete inputs: a bundler that exits with status 0 and leaves the
  files alone; an archiver that closes with the bytes \<open>PK\<close>, unless the path leads into a
  subdirectory, which the project directory does not have, so that the write stream
  cannot be opened; a glob without matches; and a project directory holding the two
  descriptors.
\<close>

definition plainExternals :: externals where
  "plainExternals =
     \<lparr>viteOutDir = Some ''dist'',
      bundler = (\<lambda>w. (True, w)),
      archiver = (\<lambda>w dir path.
                    if CHR ''/'' \<in> set path
                    then StreamError (Error (''ENOENT: no such file or directory, open '' @
                                             quoted path)) None
                    else Closed ''PK''),
      globSync = (\<lambda>pattern w. [])\<rparr>"

definition projectWith :: "obj \<Rightarrow> obj \<Rightarrow> world" where
  "projectWith pkg manifest =
     \<lparr>files = [''package.json'' \<mapsto> File (Json (JObj pkg)),
               ''public/manifest.json'' \<mapsto> File (Json (JObj manifest))],
      trace = []\<rparr>"

text \<open>
  The same with a glob that finds, for the pattern of the slug \<open>my-ext\<close>, the archives on
  disk among those of the versions 1.0.0 and 1.0.1. A complete manifest of the extension
  \<open>My Ext\<close> at a version, and the edit that sets both descriptors of a directory to a
  version.
\<close>

definition archivingExternals :: externals where
  "archivingExternals =
     plainExternals
       \<lparr>globSync := (\<lambda>pattern w.
                       if pattern = ''my-ext-v*.zip''
                       then filter (existsSync w) [''my-ext-v1-0-0.zip'', ''my-ext-v1-0-1.zip'']
                       else [])\<rparr>"

definition manifestAt :: "string \<Rightarrow> obj" where
  "manifestAt v =
     [(''manifest_version'', JNum 3), (''name'', JStr ''My Ext''),
      (''version'', JStr v), (''description'', JStr ''An extension''),
      (''icons'', JObj [(''128'', JStr ''icon.png'')])]"

definition setVersions :: "string \<Rightarrow> world \<Rightarrow> world" where
  "setVersions v w =
     w\<lparr>files := (files w)
          (''package.json'' \<mapsto> File (Json (JObj [(''name'', JStr ''my-ext''), (''version'', JStr v)])),
           ''public/manifest.json'' \<mapsto> File (Json (JObj (manifestAt v))))\<rparr>"

text \<open>The directory before anything is in it.\<close>

definition emptyWorld :: world where
  "emptyWorld = \<lparr>files = Map.empty, trace = []\<rparr>"

text \<open>
  Three builds in a row in one directory: at version 1.0.0, then with both descriptors
  set to 1.0.1, then with both set back to 1.0.0.
\<close>

definition firstBuild :: world where
  "firstBuild = snd (buildMain archivingExternals (setVersions ''1.0.0'' emptyWorld))"

definition secondBuild :: world where
  "secondBuild = snd (buildMain archivingExternals (setVersions ''1.0.1'' firstBuild))"

definition thirdBuild :: world where
  "thirdBuild = snd (buildMain archivingExternals (setVersions ''1.0.0'' secondBuild))"

text \<open>A complete manifest whose name holds a slash, beside its project descriptor.\<close>

definition slashManifest :: obj where
  "slashManifest =
     [(''manifest_version'', JNum 3), (''name'', JStr ''Read/Write''),
      (''version'', JStr ''1.0.0''), (''description'', JStr ''An extension''),
      (''icons'', JObj [(''128'', JStr ''icon.png'')])]"

definition slashProject :: world where
  "slashProject =
     projectWith [(''name'', JStr ''read-write''), (''version'', JStr ''1.0.0'')] slashManifest"

text \<open>
  A publish run with all four environment variables set, and services that do not
  answer. A complete manifest at version 1.0.0 beside a project descriptor at 1.0.
\<close>

definition idleRemote :: remote where
  "idleRemote =
     \<lparr>tokenEndpoint = (\<lambda>k. NetworkFailure (Error ''fetch failed'')),
      authorization = (\<lambda>k. Pending),
      uploadEndpoint = NetworkFailure (Error ''fetch failed'')\<rparr>"

definition publishState :: "world \<Rightarrow> pstate" where
  "publishState w =
     \<lparr>env = \<lparr>CLIENT_ID = Some ''client'', CLIENT_SECRET = Some ''secret'',
              REFRESH_TOKEN = Some ''refresh'', EXTENSION_ID = Some ''extension''\<rparr>,
      disk = w, tokenFetches = 0, authorizations = 0, uploads = 0\<rparr>"

definition tiedManifest :: obj where
  "tiedManifest =
     [(''manifest_version'', JNum 3), (''name'', JStr ''My Ext''),
      (''version'', JStr ''1.0.0''), (''description'', JStr ''An extension''),
      (''icons'', JObj [(''128'', JStr ''icon.png'')])]"

definition tiedProject :: world where
  "tiedProject = projectWith [(''name'', JStr ''my-ext''), (''version'', JStr ''1.0'')] tiedManifest"

text \<open>
  Replies of the services: a reply with a JSON body; a token endpoint whose first reply
  is an error that is not \<^verbatim>\<open>invalid_grant\<close> but is described as "Invalid refresh token";
  an upload answered by the error page of a gateway; an upload answered with the state
  \<^verbatim>\<open>FAILURE\<close>. And a directory that holds the manifest and its archive.
\<close>

definition jsonReply :: "bool \<Rightarrow> json \<Rightarrow> fetched" where
  "jsonReply isOk data = Response \<lparr>ok = isOk, body = stringify data, jsonBody = Inr data\<rparr>"

definition collidingRemote :: remote where
  "collidingRemote =
     \<lparr>tokenEndpoint =
        (\<lambda>k. if k = 0
             then jsonReply False
                    (JObj [(''error'', JStr ''invalid_request''),
                           (''error_description'', JStr ''Invalid refresh token'')])
             else jsonReply True (JObj [(''access_token'', JStr ''ya29.token'')])),
      authorization = (\<lambda>k. Resolved ''new-refresh-token''),
      uploadEndpoint = jsonReply True (JObj [(''uploadState'', JStr ''SUCCESS'')])\<rparr>"

definition archiveWorld :: world where
  "archiveWorld =
     \<lparr>files = [''static/manifest.json'' \<mapsto> File (Json (JObj tiedManifest)),
               ''my-ext-v1-0-0.zip'' \<mapsto> File (Text ''PK'')],
      trace = []\<rparr>"

definition gatewayErrorRemote :: remote where
  "gatewayErrorRemote =
     \<lparr>tokenEndpoint = (\<lambda>k. jsonReply True (JObj [(''access_token'', JStr ''ya29.token'')])),
      authorization = (\<lambda>k. Pending),
      uploadEndpoint =
        Response \<lparr>ok = False, body = ''<html><body>502 Bad Gateway</body></html>'',
                  jsonBody = Inl (SyntaxError ''Unexpected token < in JSON at position 0'')\<rparr>\<rparr>"

definition failureRemote :: remote where
  "failureRemote =
     \<lparr>tokenEndpoint = (\<lambda>k. jsonReply True (JObj [(''access_token'', JStr ''ya29.token'')])),
      authorization = (\<lambda>k. Pending),
      uploadEndpoint = jsonReply True (JObj [(''uploadState'', JStr ''FAILURE'')])\<rparr>"

section \<open>Version comparison\<close>

lemmas version_eval = validVersion_def versionErrors_def allDigits_def isDigit_def
  decimalValue_def startsWith_def Let_def components_def specCompare_def order3_def padTo_def

lemma padTo_length: "length xs \<le> n \<Longrightarrow> length (padTo n xs) = n"
  by (simp add: padTo_def)

lemma padTo_nth:
  "i < n \<Longrightarrow> length parts \<le> n \<Longrightarrow> padTo n (numbers parts) ! i = partOr0 parts i"
  by (simp add: padTo_def partOr0_def numbers_def nth_append)

text \<open>From index \<open>i\<close> on, the loop compares the rests of the two zero-filled lists.\<close>

lemma compareLoop_order3:
  "i \<le> max (length p1) (length p2) \<Longrightarrow>
   compareLoop p1 p2 i =
     order3 (drop i (padTo (max (length p1) (length p2)) (numbers p1)))
            (drop i (padTo (max (length p1) (length p2)) (numbers p2)))"
proof (induction p1 p2 i rule: compareLoop.induct)
  case (1 parts1 parts2 i)
  let ?n = "max (length parts1) (length parts2)"
  let ?a = "padTo ?n (numbers parts1)" and ?b = "padTo ?n (numbers parts2)"
  have la: "length ?a = ?n" and lb: "length ?b = ?n"
    by (simp_all add: padTo_length numbers_def)
  show ?case
  proof (cases "i < ?n")
    case False
    have "compareLoop parts1 parts2 i = 0"
      using False by (subst compareLoop.simps) simp
    moreover have "drop i ?a = []" "drop i ?b = []"
      using False la lb by auto
    ultimately show ?thesis
      by (simp add: order3_def)
  next
    case True
    have "drop i ?a = ?a ! i # drop (Suc i) ?a"
      using True la by (simp add: Cons_nth_drop_Suc)
    then have da: "drop i ?a = partOr0 parts1 i # drop (Suc i) ?a"
      using True by (simp add: padTo_nth)
    have "drop i ?b = ?b ! i # drop (Suc i) ?b"
      using True lb by (simp add: Cons_nth_drop_Suc)
    then have db: "drop i ?b = partOr0 parts2 i # drop (Suc i) ?b"
      using True by (simp add: padTo_nth)
    show ?thesis
    proof (cases "partOr0 parts1 i = partOr0 parts2 i")
      case False
      then show ?thesis
        using True da db by (auto simp: compareLoop.simps [of parts1 parts2 i] order3_def Let_def)
    next
      case eq: True
      have "compareLoop parts1 parts2 i = compareLoop parts1 parts2 (Suc i)"
        using True eq by (simp add: compareLoop.simps [of parts1 parts2 i] Let_def)
      also have "\<dots> = order3 (drop (Suc i) ?a) (drop (Suc i) ?b)"
        using "1.IH" [OF True refl refl] True eq by simp
      also have "\<dots> = order3 (drop i ?a) (drop i ?b)"
        using eq da db by (simp add: order3_def)
      finally show ?thesis .
    qed
  qed
qed

lemma compareVersions_numbers:
  "compareVersions v1 v2 =
     specCompare (numbers (map Number (split CHR ''.'' v1)))
                 (numbers (map Number (split CHR ''.'' v2)))"
  using compareLoop_order3 [of 0 "map Number (split CHR ''.'' v1)" "map Number (split CHR ''.'' v2)"]
  by (simp add: compareVersions_def specCompare_def numbers_def Let_def)

text \<open>A version the validator accepts has parts of decimal digits only.\<close>

lemma versionLoop_digits:
  "snd (versionLoop ps z es) = es \<Longrightarrow> list_all allDigits ps"
  by (induction ps arbitrary: z) (auto simp: Let_def split: if_splits)

lemma validVersion_digits: "validVersion v \<Longrightarrow> list_all allDigits (split CHR ''.'' v)"
  using versionLoop_digits [of "split CHR ''.'' v" True "[]"]
  by (auto simp: validVersion_def versionErrors_def Let_def split: if_splits prod.splits)

lemma numbers_components:
  "list_all allDigits (split CHR ''.'' v) \<Longrightarrow>
   numbers (map Number (split CHR ''.'' v)) = components v"
  by (auto simp: numbers_def components_def Number_def list_all_iff allDigits_def)

text \<open>On VersionStrings \<^verbatim>\<open>compareVersions\<close> is the comparison of the data model.\<close>

lemma compareVersions_refines:
  "validVersion v1 \<Longrightarrow> validVersion v2 \<Longrightarrow>
   compareVersions v1 v2 = specCompare (components v1) (components v2)"
  by (simp add: compareVersions_numbers numbers_components validVersion_digits)

lemma specCompare_refl: "specCompare xs xs = 0"
  by (simp add: specCompare_def order3_def)

lemma specCompare_flip: "specCompare ys xs = - specCompare xs ys"
  by (auto simp: specCompare_def order3_def Let_def max.commute)

lemma compareVersions_refl: "compareVersions v v = 0"
  by (simp add: compareVersions_numbers specCompare_refl)

lemma compareVersions_flip: "compareVersions v2 v1 = - compareVersions v1 v2"
  unfolding compareVersions_numbers by (rule specCompare_flip)

section \<open>synchronizeVersions\<close>

lemma field_setField: "field (setField k v ob) k = Some v"
  by (induction ob) (auto simp: field_def)

lemma field_setField_other: "k' \<noteq> k \<Longrightarrow> field (setField k v ob) k' = field ob k'"
  by (induction ob) (auto simp: field_def)

text \<open>The three ways a call goes, by the sign of the first comparison.\<close>

lemma sync_higher_package:
  assumes "field pkg ''version'' = Some (JStr p)" "field man ''version'' = Some (JStr m)"
      and "compareVersions p m > 0"
  shows "synchronizeVersions pkg man pp mp w =
           Inr (p, pkg, setField ''version'' (JStr p) man,
                writeFileSync mp (Json (JObj (setField ''version'' (JStr p) man))) w)"
proof -
  have "compareVersions m p < 0"
    using assms(3) compareVersions_flip [of p m] by linarith
  then show ?thesis
    using assms by (simp add: synchronizeVersions_def compareVersions_refl Let_def)
qed

lemma sync_equal:
  assumes "field pkg ''version'' = Some (JStr p)" "field man ''version'' = Some (JStr m)"
      and "compareVersions p m = 0"
  shows "synchronizeVersions pkg man pp mp w = Inr (p, pkg, man, w)"
proof -
  have "compareVersions m p = 0"
    using assms(3) compareVersions_flip [of p m] by linarith
  then show ?thesis
    using assms by (simp add: synchronizeVersions_def compareVersions_refl Let_def)
qed

lemma sync_higher_manifest:
  assumes "field pkg ''version'' = Some (JStr p)" "field man ''version'' = Some (JStr m)"
      and "compareVersions p m < 0"
  shows "synchronizeVersions pkg man pp mp w =
           Inr (m, setField ''version'' (JStr m) pkg, man,
                writeFileSync pp (Json (JObj (setField ''version'' (JStr m) pkg))) w)"
  using assms
  by (simp add: synchronizeVersions_def compareVersions_refl Let_def)

section \<open>Trailing zero components\<close>

lemma specCompare_zeros: "specCompare xs (xs @ replicate k 0) = 0"
  by (simp add: specCompare_def padTo_def order3_def Let_def)

lemma zeroExtension_components:
  assumes "zeroExtension a b"
  shows "\<exists>k. components b = components a @ replicate k 0"
proof -
  let ?pa = "split CHR ''.'' a" and ?pb = "split CHR ''.'' b"
  from assms have le: "length ?pa \<le> length ?pb" and tk: "take (length ?pa) ?pb = ?pa"
    and z: "list_all (\<lambda>z. decimalValue z = 0) (drop (length ?pa) ?pb)"
    by (simp_all add: zeroExtension_def Let_def)
  have "?pb = ?pa @ drop (length ?pa) ?pb"
    using tk append_take_drop_id [of "length ?pa" ?pb] by simp
  then have "components b = components a @ map decimalValue (drop (length ?pa) ?pb)"
    unfolding components_def by (metis map_append)
  moreover have "map decimalValue (drop (length ?pa) ?pb)
                   = map (\<lambda>z. 0) (drop (length ?pa) ?pb)"
    using z by (intro map_cong refl) (simp add: list_all_iff)
  then have "map decimalValue (drop (length ?pa) ?pb)
                   = replicate (length (drop (length ?pa) ?pb)) 0"
    by (simp only: map_replicate_const)
  ultimately show ?thesis by metis
qed

lemma trailing_zeros_compare:
  assumes "differOnlyByTrailingZeros p m"
  shows "specCompare (components p) (components m) = 0"
proof -
  from assms consider "zeroExtension p m" | "zeroExtension m p"
    by (auto simp: differOnlyByTrailingZeros_def)
  then show ?thesis
  proof cases
    case 1
    then show ?thesis
      using zeroExtension_components [of p m] by (auto simp: specCompare_zeros)
  next
    case 2
    then obtain k where "components p = components m @ replicate k 0"
      using zeroExtension_components [of m p] by auto
    then show ?thesis
      using specCompare_flip [of "components m" "components m @ replicate k 0"]
      by (simp add: specCompare_zeros)
  qed
qed

lemma split_chars:
  "c \<in> set v \<Longrightarrow> c = sep \<or> (\<exists>part \<in> set (split sep v). c \<in> set part)"
  by (induction v) (auto split: list.splits if_splits)

lemma isDigit_not_dash: "isDigit c \<Longrightarrow> c \<noteq> CHR ''-''"
  by (auto simp: isDigit_def)

lemma validVersion_no_dash: "validVersion v \<Longrightarrow> CHR ''-'' \<notin> set v"
proof
  assume v: "validVersion v" and "CHR ''-'' \<in> set v"
  then obtain part where "part \<in> set (split CHR ''.'' v)" "CHR ''-'' \<in> set part"
    using split_chars [of "CHR ''-''" v "CHR ''.''"] by auto
  moreover have "list_all allDigits (split CHR ''.'' v)"
    using v by (rule validVersion_digits)
  ultimately show False
    using isDigit_not_dash by (auto simp: list_all_iff allDigits_def)
qed

lemma dotsToDashes_inj:
  assumes "CHR ''-'' \<notin> set a" "CHR ''-'' \<notin> set b" "dotsToDashes a = dotsToDashes b"
  shows "a = b"
proof -
  have "inj_on (\<lambda>c. if c = CHR ''.'' then CHR ''-'' else c) (set a \<union> set b)"
    using assms(1,2) by (auto simp: inj_on_def split: if_splits)
  then show ?thesis
    using assms(3) by (simp add: dotsToDashes_def inj_on_map_eq_map)
qed

section \<open>Substrings\<close>

lemma includesStr_prefix: "includesStr (p @ ys) p"
proof (cases "p @ ys")
  case Nil
  then show ?thesis by simp
next
  case (Cons a list)
  have "startsWith (p @ ys) p"
    by (simp add: startsWith_def)
  then show ?thesis
    unfolding Cons by simp
qed

lemma includesStr_append: "includesStr (xs @ p @ ys) p"
proof (induction xs)
  case Nil
  show ?case by (simp add: includesStr_prefix)
next
  case (Cons x xs)
  then show ?case by simp
qed


section \<open>The build script: validation and packaging\<close>

lemmas build_eval = buildMain_def loadConfigs_def plainExternals_def projectWith_def existsSync_def
      readJsonObject_def validateManifest_def checkManifestVersion_def checkName_def checkVersion_def
      field_def quoted_def writeFileSync_def

lemma checkManifestVersion_result:
  "checkManifestVersion man = (m1, e1, s1) \<Longrightarrow>
   s1 = (field man ''manifest_version'' = None) \<and> field m1 ''name'' = field man ''name''"
  by (auto simp: checkManifestVersion_def field_setField_other split: option.splits if_splits)

lemma checkName_result:
  "checkName m1 pkg e1 s1 = (m2, e2, s2) \<Longrightarrow>
   s2 = (s1 \<or> (field m1 ''name'' = None \<and>
                (case field pkg ''name'' of Some (JStr n) \<Rightarrow> n \<noteq> [] | _ \<Rightarrow> False)))"
  by (auto simp: checkName_def split: option.splits json.splits if_splits)

lemma validateManifest_state:
  assumes "validateManifest man pkg path w = Inr (v, m, w1)"
  shows "w1 = (if autoFilled man pkg then writeFileSync path (Json (JObj m)) w else w)"
proof -
  obtain m1 e1 s1 where a: "checkManifestVersion man = (m1, e1, s1)"
    by (cases "checkManifestVersion man") auto
  obtain m2 e2 s2 where b: "checkName m1 pkg e1 s1 = (m2, e2, s2)"
    by (cases "checkName m1 pkg e1 s1") auto
  have "s2 = autoFilled man pkg"
    using checkManifestVersion_result [OF a] checkName_result [OF b]
    by (simp add: autoFilled_def)
  then show ?thesis
    using assms a b by (auto simp: validateManifest_def Let_def split: sum.splits)
qed

lemma loadConfigs_path: "loadConfigs ext w = Inr cfg \<Longrightarrow> manifestJsonPath cfg = ''public/manifest.json''"
  by (auto simp: loadConfigs_def Let_def split: if_splits sum.splits)

lemma unlinkSync_result:
  "unlinkSync f w = Inr w' \<Longrightarrow>
   trace w' = trace w @ [Unlink f] \<and> files w' = (files w)(f := None)"
  by (auto simp: unlinkSync_def split: option.splits node.splits)

lemma unlinkAll_done:
  "unlinkAll fs w = (None, w') \<Longrightarrow>
   trace w' = trace w @ map Unlink fs \<and>
   (\<forall>p. files w' p = (if p \<in> set fs then None else files w p))"
proof (induction fs arbitrary: w)
  case Nil
  then show ?case by simp
next
  case (Cons f fs)
  then obtain w1 where u: "unlinkSync f w = Inr w1" and rest: "unlinkAll fs w1 = (None, w')"
    by (auto split: sum.splits)
  show ?case
    using Cons.IH [OF rest] unlinkSync_result [OF u] by auto
qed

lemma unlinkAll_keeps:
  "unlinkAll fs w = (r, w') \<Longrightarrow> p \<notin> set fs \<Longrightarrow> files w' p = files w p"
proof (induction fs arbitrary: w)
  case Nil
  then show ?case by simp
next
  case (Cons f fs)
  show ?case
  proof (cases "unlinkSync f w")
    case (Inl ex)
    with Cons.prems show ?thesis by simp
  next
    case (Inr w1)
    then have "unlinkAll fs w1 = (r, w')"
      using Cons.prems by simp
    then show ?thesis
      using Cons.IH [of w1] Cons.prems(2) unlinkSync_result [OF Inr] by simp
  qed
qed

lemma unlinkAll_trace:
  "unlinkAll fs w = (r, w') \<Longrightarrow> \<exists>t. trace w' = trace w @ t"
proof (induction fs arbitrary: w)
  case Nil
  then show ?case by simp
next
  case (Cons f fs)
  show ?case
  proof (cases "unlinkSync f w")
    case (Inl ex)
    with Cons.prems show ?thesis by simp
  next
    case (Inr w1)
    then have "unlinkAll fs w1 = (r, w')"
      using Cons.prems by simp
    then show ?thesis
      using Cons.IH [of w1] unlinkSync_result [OF Inr] by auto
  qed
qed

lemma createZipArchive_result:
  "createZipArchive ext outDir z w = (r, w1) \<Longrightarrow>
   trace w1 = trace w @ [CreateArchive z] \<and> (\<forall>p. p \<noteq> z \<longrightarrow> files w1 p = files w p)"
  by (auto simp: createZipArchive_def split: archived.splits option.splits)

lemma createZipArchive_finished:
  "createZipArchive ext outDir z w = (Finished, w1) \<Longrightarrow>
   \<exists>bytes. archiver ext w outDir z = Closed bytes \<and> files w1 z = Some (File (Text bytes))"
  by (auto simp: createZipArchive_def split: archived.splits option.splits)

lemma createZipArchive_stream_error:
  "archiver ext w outDir z = StreamError ex written \<Longrightarrow>
   fst (createZipArchive ext outDir z w) = Crashed ex \<and>
   trace (snd (createZipArchive ext outDir z w)) = trace w @ [CreateArchive z] \<and>
   (written = None \<longrightarrow> files (snd (createZipArchive ext outDir z w)) = files w)"
  by (auto simp: createZipArchive_def split: option.splits)

text \<open>The pattern of the ignore-list without the white space around it.\<close>

lemma trim_zipIgnorePattern:
  "trim (zipIgnorePattern packageName)
     = ''# Generated by build.cjs'' @ newline @ packageName @ ''-*.zip''"
  by (simp add: trim_def zipIgnorePattern_def newline_def isSpace_def)

lemma zipIgnorePattern_includes:
  "includesStr (t @ zipIgnorePattern packageName) (trim (zipIgnorePattern packageName))"
proof -
  have "t @ zipIgnorePattern packageName
          = (t @ newline @ newline) @ trim (zipIgnorePattern packageName) @ newline"
    by (simp add: trim_zipIgnorePattern) (simp add: zipIgnorePattern_def)
  then show ?thesis
    by (simp only: includesStr_append)
qed

text \<open>
  \<^verbatim>\<open>manageGitignore\<close>, when it returns: it touches no other path, the ignore-list then holds
  the pattern, and it is left alone exactly when it held the pattern before, written when
  it was missing, appended to otherwise.
\<close>

lemma manageGitignore_result:
  assumes "manageGitignore ext packageName w = Inr w'"
  shows "(\<forall>p. p \<noteq> ''.gitignore'' \<longrightarrow> files w' p = files w p) \<and>
         (\<exists>g ignored.
            trace w' = trace w @ g \<and>
            files w' ''.gitignore'' = Some (File ignored) \<and>
            includesStr (textOf ignored) (trim (zipIgnorePattern packageName)) \<and>
            (g = [] \<and> files w ''.gitignore'' = Some (File ignored) \<or>
             g = [WriteFile ''.gitignore'' (Text (zipIgnorePattern packageName))] \<and>
               files w ''.gitignore'' = None \<and> ignored = Text (zipIgnorePattern packageName) \<or>
             g = [AppendFile ''.gitignore'' (zipIgnorePattern packageName)] \<and>
               (\<exists>c. files w ''.gitignore'' = Some (File c) \<and>
                    \<not> includesStr (textOf c) (trim (zipIgnorePattern packageName)) \<and>
                    ignored = Text (textOf c @ zipIgnorePattern packageName))))"
proof (cases "files w ''.gitignore''")
  case None
  then have "w' = writeFileSync ''.gitignore'' (Text (zipIgnorePattern packageName)) w"
    using assms by (simp add: manageGitignore_def Let_def)
  then show ?thesis
    using None zipIgnorePattern_includes [of "[]" packageName]
    by (simp add: writeFileSync_def textOf_def)
next
  case (Some n)
  then obtain c where c: "files w ''.gitignore'' = Some (File c)"
    using assms by (cases n) (simp_all add: manageGitignore_def Let_def)
  show ?thesis
  proof (cases "includesStr (textOf c) (trim (zipIgnorePattern packageName))")
    case True
    then have "w' = w"
      using assms c by (simp add: manageGitignore_def Let_def)
    then show ?thesis
      using c True by simp
  next
    case False
    then have "w' = w\<lparr>files := (files w)(''.gitignore'' \<mapsto>
                                    File (Text (textOf c @ zipIgnorePattern packageName))),
                      trace := trace w @ [AppendFile ''.gitignore'' (zipIgnorePattern packageName)]\<rparr>"
      using assms c by (auto simp add: manageGitignore_def appendFileSync_def Let_def)
    then show ?thesis
      using c False zipIgnorePattern_includes [of "textOf c" packageName]
      by (simp add: textOf_def)
  qed
qed

lemma zipFileName_not_gitignore: "zipFileName name h \<noteq> ''.gitignore''"
proof
  assume "zipFileName name h = ''.gitignore''"
  then have "last (zipFileName name h) = last ''.gitignore''"
    by simp
  then show False
    by (simp add: zipFileName_def Let_def)
qed

lemma packaging_skip:
  assumes "field manifest ''name'' = Some (JStr name)"
      and "warns \<noteq> [] \<or> existsSync w (zipFileName name h)"
  shows "packaging ext warns manifest h outDir w = (Finished, w)"
  using assms by (auto simp: packaging_def Let_def)

text \<open>Without warnings and without the archive, the first call of the step asks for the
  archive under its name, however the step ends.\<close>

lemma packaging_first_call:
  assumes "field manifest ''name'' = Some (JStr name)"
      and "warns = []" and "\<not> existsSync w (zipFileName name h)"
      and "packaging ext warns manifest h outDir w = (r, w')"
  shows "\<exists>rest. trace w' = trace w @ CreateArchive (zipFileName name h) # rest"
proof -
  let ?zip = "zipFileName name h"
  obtain r1 w1 where c: "createZipArchive ext outDir ?zip w = (r1, w1)"
    by (cases "createZipArchive ext outDir ?zip w") auto
  note c1 = createZipArchive_result [OF c]
  show ?thesis
  proof (cases r1)
    case (Threw ex)
    then have "w' = w1"
      using assms c by (simp add: packaging_def Let_def)
    then show ?thesis
      using c1 by simp
  next
    case (Crashed ex)
    then have "w' = w1"
      using assms c by (simp add: packaging_def Let_def)
    then show ?thesis
      using c1 by simp
  next
    case Finished
    let ?old = "filter (\<lambda>file. file \<noteq> ?zip) (globSync ext (slug name @ ''-v*.zip'') w1)"
    obtain r2 w2 where u: "unlinkAll ?old w1 = (r2, w2)"
      by (cases "unlinkAll ?old w1") auto
    obtain t where t2: "trace w2 = trace w1 @ t"
      using unlinkAll_trace [OF u] by auto
    show ?thesis
    proof (cases r2)
      case (Some ex)
      then have "w' = w2"
        using assms c Finished u by (simp add: packaging_def Let_def)
      then show ?thesis
        using c1 t2 by simp
    next
      case n2: None
      show ?thesis
      proof (cases "manageGitignore ext (slug name) w2")
        case (Inl ex)
        then have "w' = w2"
          using assms c Finished u n2 by (simp add: packaging_def Let_def)
        then show ?thesis
          using c1 t2 by simp
      next
        case (Inr w3)
        then have "w' = w3"
          using assms c Finished u n2 by (simp add: packaging_def Let_def)
        moreover have "\<exists>g. trace w3 = trace w2 @ g"
          using manageGitignore_result [OF Inr] by auto
        ultimately show ?thesis
          using c1 t2 by auto
      qed
    qed
  qed
qed

text \<open>An error of the write stream ends the step outside the \<^verbatim>\<open>catch\<close> of \<^verbatim>\<open>main\<close>, after the
  one call that asked for the archive.\<close>

lemma packaging_stream_error:
  assumes "field manifest ''name'' = Some (JStr name)"
      and "warns = []" and "\<not> existsSync w (zipFileName name h)"
      and "archiver ext w outDir (zipFileName name h) = StreamError ex written"
  shows "fst (packaging ext warns manifest h outDir w) = Crashed ex \<and>
         trace (snd (packaging ext warns manifest h outDir w))
           = trace w @ [CreateArchive (zipFileName name h)] \<and>
         (written = None \<longrightarrow> files (snd (packaging ext warns manifest h outDir w)) = files w)"
proof -
  obtain w1 where c: "createZipArchive ext outDir (zipFileName name h) w = (Crashed ex, w1)"
    using createZipArchive_stream_error [OF assms(4)]
    by (cases "createZipArchive ext outDir (zipFileName name h) w") auto
  then have "packaging ext warns manifest h outDir w = (Crashed ex, w1)"
    using assms(1-3) by (simp add: packaging_def Let_def)
  then show ?thesis
    using createZipArchive_stream_error [OF assms(4)] c by simp
qed

text \<open>The step that ran to its end: its calls, the files it leaves, and the skip of the
  step run again on them.\<close>

lemma packaging_done:
  assumes "field manifest ''name'' = Some (JStr name)"
      and "warns = []" and "\<not> existsSync w (zipFileName name h)"
      and "packaging ext warns manifest h outDir w = (Finished, w')"
  shows "\<exists>bytes old g ignored.
           archiver ext w outDir (zipFileName name h) = Closed bytes \<and>
           old = filter (\<lambda>file. file \<noteq> zipFileName name h)
                   (globSync ext (slug name @ ''-v*.zip'')
                      (snd (createZipArchive ext outDir (zipFileName name h) w))) \<and>
           trace w' = trace w @ [CreateArchive (zipFileName name h)] @ map Unlink old @ g \<and>
           files w' (zipFileName name h) = Some (File (Text bytes)) \<and>
           (\<forall>f \<in> set old. f \<noteq> ''.gitignore'' \<longrightarrow> files w' f = None) \<and>
           (\<forall>p. p \<noteq> zipFileName name h \<and> p \<notin> set old \<and> p \<noteq> ''.gitignore''
                \<longrightarrow> files w' p = files w p) \<and>
           files w' ''.gitignore'' = Some (File ignored) \<and>
           includesStr (textOf ignored) (trim (zipIgnorePattern (slug name))) \<and>
           (g = [] \<and> files w ''.gitignore'' = Some (File ignored) \<or>
            g = [WriteFile ''.gitignore'' (Text (zipIgnorePattern (slug name)))] \<and>
              ignored = Text (zipIgnorePattern (slug name)) \<and>
              (files w ''.gitignore'' = None \<or> ''.gitignore'' \<in> set old) \<or>
            g = [AppendFile ''.gitignore'' (zipIgnorePattern (slug name))] \<and>
              (\<exists>c. files w ''.gitignore'' = Some (File c) \<and>
                   \<not> includesStr (textOf c) (trim (zipIgnorePattern (slug name))) \<and>
                   ignored = Text (textOf c @ zipIgnorePattern (slug name)))) \<and>
           packaging ext warns manifest h outDir w' = (Finished, w')"
proof -
  let ?zip = "zipFileName name h"
  let ?P = "zipIgnorePattern (slug name)"
  obtain r1 w1 where c: "createZipArchive ext outDir ?zip w = (r1, w1)"
    by (cases "createZipArchive ext outDir ?zip w") auto
  let ?old = "filter (\<lambda>file. file \<noteq> ?zip) (globSync ext (slug name @ ''-v*.zip'') w1)"
  obtain r2 w2 where u: "unlinkAll ?old w1 = (r2, w2)"
    by (cases "unlinkAll ?old w1") auto
  have r1: "r1 = Finished"
    using assms c by (cases r1) (auto simp: packaging_def Let_def)
  have r2: "r2 = None"
    using assms c r1 u by (cases r2) (auto simp: packaging_def Let_def split: sum.splits)
  have g: "manageGitignore ext (slug name) w2 = Inr w'"
    using assms c r1 u r2 by (auto simp: packaging_def Let_def split: sum.splits)
  obtain bytes where a: "archiver ext w outDir ?zip = Closed bytes"
    and f1: "files w1 ?zip = Some (File (Text bytes))"
    using createZipArchive_finished [OF c [unfolded r1]] by auto
  note c1 = createZipArchive_result [OF c]
  note u2 = unlinkAll_done [OF u [unfolded r2]]
  note g3 = manageGitignore_result [OF g]
  have ng: "?zip \<noteq> ''.gitignore''"
    by (rule zipFileName_not_gitignore)
  have w2g: "files w2 ''.gitignore'' = (if ''.gitignore'' \<in> set ?old then None else files w ''.gitignore'')"
    using u2 c1 ng by auto
  have z: "files w' ?zip = Some (File (Text bytes))"
    using f1 u2 g3 ng by auto
  have gone: "\<forall>f \<in> set ?old. f \<noteq> ''.gitignore'' \<longrightarrow> files w' f = None"
    using u2 g3 by auto
  have kept: "\<forall>p. p \<noteq> ?zip \<and> p \<notin> set ?old \<and> p \<noteq> ''.gitignore'' \<longrightarrow> files w' p = files w p"
    using u2 g3 c1 by auto
  obtain gg ignored where tr: "trace w' = trace w2 @ gg"
    and ig: "files w' ''.gitignore'' = Some (File ignored)"
    and inc: "includesStr (textOf ignored) (trim ?P)"
    and gg: "gg = [] \<and> files w2 ''.gitignore'' = Some (File ignored) \<or>
             gg = [WriteFile ''.gitignore'' (Text ?P)] \<and>
               files w2 ''.gitignore'' = None \<and> ignored = Text ?P \<or>
             gg = [AppendFile ''.gitignore'' ?P] \<and>
               (\<exists>c. files w2 ''.gitignore'' = Some (File c) \<and>
                    \<not> includesStr (textOf c) (trim ?P) \<and> ignored = Text (textOf c @ ?P))"
    using g3 by blast
  have gg': "gg = [] \<and> files w ''.gitignore'' = Some (File ignored) \<or>
             gg = [WriteFile ''.gitignore'' (Text ?P)] \<and> ignored = Text ?P \<and>
               (files w ''.gitignore'' = None \<or> ''.gitignore'' \<in> set ?old) \<or>
             gg = [AppendFile ''.gitignore'' ?P] \<and>
               (\<exists>c. files w ''.gitignore'' = Some (File c) \<and>
                    \<not> includesStr (textOf c) (trim ?P) \<and> ignored = Text (textOf c @ ?P))"
    using gg unfolding w2g by (auto split: if_splits)
  have t: "trace w' = trace w @ [CreateArchive ?zip] @ map Unlink ?old @ gg"
    using tr c1 u2 by simp
  have o: "?old = filter (\<lambda>file. file \<noteq> ?zip)
                   (globSync ext (slug name @ ''-v*.zip'') (snd (createZipArchive ext outDir ?zip w)))"
    using c by simp
  have "existsSync w' ?zip"
    using z by (simp add: existsSync_def)
  then have again: "packaging ext warns manifest h outDir w' = (Finished, w')"
    by (rule packaging_skip [OF assms(1) disjI2])
  show ?thesis
    using a o t z gone kept ig inc gg' again by blast
qed

lemma zip_example: "zipFileName ''My Ext'' ''1.0.0'' = ''my-ext-v1-0-0.zip''"
  by code_simp

lemmas validate_eval = validateManifest_def checkManifestVersion_def checkName_def
  checkVersion_def field_def version_eval supportedFormats_def endsWith_def toLowerCase_def
  lowerChar_def

lemma version_1_0_0: "compareVersions ''1.0.0'' ''1.0.0'' = 0"
  and version_1_0_1: "compareVersions ''1.0.1'' ''1.0.1'' = 0"
  by (simp_all add: compareVersions_numbers Number_def numbers_def version_eval)

lemma my_ext_names:
  "zipFileName ''My Ext'' ''1.0.0'' = ''my-ext-v1-0-0.zip''"
  "zipFileName ''My Ext'' ''1.0.1'' = ''my-ext-v1-0-1.zip''"
  "slug ''My Ext'' = ''my-ext''"
  "zipFileName ''Read/Write'' ''1.0.0'' = ''read/write-v1-0-0.zip''"
  "slug ''Read/Write'' = ''read/write''"
  by code_simp+

lemmas run_eval = buildMain_def loadConfigs_def archivingExternals_def plainExternals_def
  setVersions_def emptyWorld_def manifestAt_def slashProject_def slashManifest_def projectWith_def
  existsSync_def readJsonObject_def validate_eval
  synchronizeVersions_def version_1_0_0 version_1_0_1 mkdirSync_def runViteBuild_def
  packaging_def my_ext_names createZipArchive_def manageGitignore_def writeFileSync_def
  appendFileSync_def unlinkSync_def zipIgnorePattern_def newline_def trim_def isSpace_def
  textOf_def startsWith_def quoted_def Let_def

text \<open>
  A build whose manifest is complete and whose name holds a slash: the archive is asked
  for under a path into a subdirectory that does not exist, the write stream cannot be
  opened, and the build ends with that error outside the \<^verbatim>\<open>catch\<close> of \<^verbatim>\<open>main\<close>: no archive,
  no pruning, no ignore-list.
\<close>

lemma unopened_stream_build:
  "fst (buildMain plainExternals slashProject)
     = Uncaught (Error (''ENOENT: no such file or directory, open '' @
                        quoted ''read/write-v1-0-0.zip'')) \<and>
   trace (snd (buildMain plainExternals slashProject))
     = [Mkdir ''dist'', CreateArchive ''read/write-v1-0-0.zip''] \<and>
   files (snd (buildMain plainExternals slashProject)) ''read/write-v1-0-0.zip'' = None \<and>
   files (snd (buildMain plainExternals slashProject)) ''.gitignore'' = None"
  by (simp add: run_eval)

lemma buildMain_packaging:
  assumes "loadConfigs ext w = Inr cfg"
      and "validateManifest (manifestJson cfg) (packageJson cfg) (manifestJsonPath cfg) w
             = Inr (v, m, w1)"
      and "errors v = []"
      and "synchronizeVersions (packageJson cfg) m ''package.json'' (manifestJsonPath cfg) w1
             = Inr (h, pkg', m', w2)"
      and "bundler ext (if \<not> existsSync w2 (outputDir cfg) then mkdirSync (outputDir cfg) w2 else w2)
             = (True, w4)"
  shows "buildMain ext w =
           (case packaging ext (warnings v) m' h (outputDir cfg) w4 of
              (Threw ex, w5) \<Rightarrow> (Fatal ex, w5)
            | (Crashed ex, w5) \<Rightarrow> (Uncaught ex, w5)
            | (Finished, w5) \<Rightarrow> (Completed, w5))"
  using assms by (simp add: buildMain_def runViteBuild_def Let_def)

lemma tied_compare: "compareVersions ''1.0'' ''1.0.0'' = 0"
  by (simp add: compareVersions_numbers Number_def numbers_def version_eval)

text \<open>Values of \<^verbatim>\<open>icons\<close> that are no objects, \<^verbatim>\<open>null\<close> apart, give the one warning.\<close>

lemma checkIcons_not_object:
  "v = JBool b \<or> v = JNum n \<or> v = JStr s \<or> v = JArr xs \<Longrightarrow>
   checkIcons (Some v) = Inr [quoted ''icons'' @ '' must be an object'']"
  by auto

lemma checkName_name:
  "checkName m1 pkg e1 s1 = (m2, e2, s2) \<Longrightarrow> e2 = [] \<Longrightarrow>
   \<exists>n. field m2 ''name'' = Some (JStr n)"
  by (auto simp: checkName_def field_setField split: option.splits json.splits if_splits)

lemma checkVersion_keeps: "checkVersion m e = [] \<Longrightarrow> e = []"
  by (auto simp: checkVersion_def split: option.splits)

text \<open>After a validation without errors the name of the manifest is a string.\<close>

lemma validated_name:
  assumes "validateManifest man pkg path w = Inr (v, m, w1)" and "errors v = []"
  shows "\<exists>n. field m ''name'' = Some (JStr n)"
proof -
  obtain m1 e1 s1 where a: "checkManifestVersion man = (m1, e1, s1)"
    by (cases "checkManifestVersion man") auto
  obtain m2 e2 s2 where b: "checkName m1 pkg e1 s1 = (m2, e2, s2)"
    by (cases "checkName m1 pkg e1 s1") auto
  have "m = m2" and "checkVersion m2 e2 = []"
    using assms a b by (auto simp: validateManifest_def Let_def split: sum.splits)
  then show ?thesis
    using checkName_name [OF b] checkVersion_keeps by blast
qed

text \<open>\<^verbatim>\<open>synchronizeVersions\<close> leaves the name of the manifest alone.\<close>

lemma synchronized_name:
  assumes "synchronizeVersions pkg m pp mp w = Inr (h, pkg', m', w')"
  shows "field m' ''name'' = field m ''name''"
  using assms
  by (auto simp: synchronizeVersions_def Let_def field_setField_other
           split: option.splits json.splits if_splits)

section \<open>The publish script: tokens and upload\<close>

lemmas publish_eval = getAccessToken_def ensureAccessToken_def fetchWithRetry_def authorize_def
  getRefreshToken_def saveRefreshToken_def publishState_def unset_def jsonReply_def
  existsSync_def field_def Let_def

lemma getAccessToken_counts:
  "getAccessToken rem s = (r, s1) \<Longrightarrow>
   s1 = s\<lparr>tokenFetches := Suc (tokenFetches s)\<rparr>"
  by (auto simp: getAccessToken_def Let_def
           split: fetched.splits sum.splits if_splits option.splits)

lemma authorize_counts:
  "authorize rem s = (r, s1) \<Longrightarrow>
   authorizations s1 = Suc (authorizations s) \<and> tokenFetches s1 = tokenFetches s \<and>
   uploads s1 = uploads s"
  by (auto simp: authorize_def getRefreshToken_def saveRefreshToken_def Let_def
           split: promise.splits option.splits if_splits sum.splits prod.splits)

lemma getAccessToken_invalid_grant:
  assumes "tokenEndpoint rem (tokenFetches s) = Response r" and "\<not> ok r"
      and "jsonBody r = Inr data" and "getProp data ''error'' = Inr (Some (JStr ''invalid_grant''))"
  shows "getAccessToken rem s
           = (Rejected (Error ''Invalid refresh token''), s\<lparr>tokenFetches := Suc (tokenFetches s)\<rparr>)"
  using assms by (simp add: getAccessToken_def Let_def)

text \<open>
  A first reply shaped as \<^verbatim>\<open>invalid_grant\<close>, with a refresh token in the environment: one
  authorization, and when it resolves one more token request, whose outcome is the
  outcome of the whole; when it does not resolve, its outcome is.
\<close>

lemma invalid_grant_reauthorizes_once:
  assumes "\<not> unset (REFRESH_TOKEN (env s))"
      and "tokenEndpoint rem (tokenFetches s) = Response r" and "\<not> ok r"
      and "jsonBody r = Inr data" and "getProp data ''error'' = Inr (Some (JStr ''invalid_grant''))"
      and "authorize rem (s\<lparr>tokenFetches := Suc (tokenFetches s)\<rparr>) = (Resolved u, s2)"
  shows "ensureAccessToken rem s = getAccessToken rem s2 \<and>
         authorizations (snd (ensureAccessToken rem s)) = Suc (authorizations s) \<and>
         tokenFetches (snd (ensureAccessToken rem s)) = tokenFetches s + 2"
proof -
  have e: "ensureAccessToken rem s = getAccessToken rem s2"
    using assms(1,6) getAccessToken_invalid_grant [OF assms(2-5)]
    by (simp add: ensureAccessToken_def fetchWithRetry_def)
  obtain r3 s3 where g: "getAccessToken rem s2 = (r3, s3)"
    by (cases "getAccessToken rem s2") auto
  show ?thesis
    using e g getAccessToken_counts [OF g] authorize_counts [OF assms(6)] by simp
qed

lemma invalid_grant_authorization_fails:
  assumes "\<not> unset (REFRESH_TOKEN (env s))"
      and "tokenEndpoint rem (tokenFetches s) = Response r" and "\<not> ok r"
      and "jsonBody r = Inr data" and "getProp data ''error'' = Inr (Some (JStr ''invalid_grant''))"
      and "authorize rem (s\<lparr>tokenFetches := Suc (tokenFetches s)\<rparr>) = (a, s2)"
      and "a \<noteq> Resolved ()"
  shows "ensureAccessToken rem s = (case a of Rejected ex \<Rightarrow> Rejected ex | _ \<Rightarrow> Pending, s2) \<and>
         authorizations s2 = Suc (authorizations s) \<and> tokenFetches s2 = Suc (tokenFetches s)"
  using assms(1,6,7) getAccessToken_invalid_grant [OF assms(2-5)] authorize_counts [OF assms(6)]
  by (cases a) (simp_all add: ensureAccessToken_def fetchWithRetry_def)

text \<open>A failure whose message is not the marker is passed on as it is, without an
  authorization.\<close>

lemma other_failure_propagates:
  assumes "\<not> unset (REFRESH_TOKEN (env s))"
      and "getAccessToken rem s = (Rejected e, s1)"
      and "message e \<noteq> ''Invalid refresh token''"
  shows "ensureAccessToken rem s = (Rejected e, s1) \<and>
         authorizations s1 = authorizations s \<and> tokenFetches s1 = Suc (tokenFetches s)"
  using assms getAccessToken_counts [OF assms(2)]
  by (simp add: ensureAccessToken_def fetchWithRetry_def)

lemma uploadFailed_carries: "includesStr (message (uploadFailed result)) (stringify result)"
proof -
  have "message (uploadFailed result)
          = (CHR 0x1B # ''[1;31m'' @ crossMark @ '' Upload failed: '') @ stringify result @ RESET"
    by (simp add: uploadFailed_def red_def)
  then show ?thesis
    by (simp only: includesStr_append)
qed

lemma uploadToChromeWebStore_response:
  assumes "ensureAccessToken rem s = (Resolved accessToken, s1)"
      and "files (disk s1) zipFilePath = Some (File zipBytes)"
      and "uploadEndpoint rem = Response r" and "jsonBody r = Inr result"
  shows "fst (uploadToChromeWebStore rem zipFilePath extensionId s) =
           (if \<not> ok r then Rejected (uploadFailed result)
            else case getProp result ''uploadState'' of
                   Inl ex \<Rightarrow> Rejected ex
                 | Inr st \<Rightarrow> if st = Some (JStr ''SUCCESS'') then Resolved ()
                             else Rejected (uploadFailed result))"
  using assms by (simp add: uploadToChromeWebStore_def Let_def split: sum.splits)

lemma uploadToChromeWebStore_unparsed:
  assumes "ensureAccessToken rem s = (Resolved accessToken, s1)"
      and "files (disk s1) zipFilePath = Some (File zipBytes)"
      and "uploadEndpoint rem = Response r" and "jsonBody r = Inl ex"
  shows "fst (uploadToChromeWebStore rem zipFilePath extensionId s) = Rejected ex"
  using assms by (simp add: uploadToChromeWebStore_def Let_def)

text \<open>
  Claim C1. For valid VersionStrings \<open>p\<close> (project descriptor) and \<open>m\<close> (manifest),
  \<^verbatim>\<open>synchronizeVersions\<close> returns normally, and the version \<open>h\<close> it returns is the maximum
  of the two in the component-wise comparison with missing trailing components as 0: it
  is one of the two and neither is above it. Afterwards the version fields of both
  descriptors compare equal to \<open>h\<close>. The calls of \<^verbatim>\<open>writeFileSync\<close> it makes are exactly: the
  project descriptor if \<open>p\<close> is strictly lower than \<open>h\<close>, then the manifest if \<open>m\<close> is
  strictly lower than \<open>h\<close>, each with the rewritten descriptor.
\<close>

theorem synchronizeVersions_maximum:
  assumes "validVersion p" and "validVersion m"
      and "field pkg ''version'' = Some (JStr p)" and "field man ''version'' = Some (JStr m)"
  shows "\<exists>h pkg' man' w'.
           synchronizeVersions pkg man pkgPath manPath w = Inr (h, pkg', man', w') \<and>
           (h = p \<or> h = m) \<and>
           specCompare (components p) (components h) \<le> 0 \<and>
           specCompare (components m) (components h) \<le> 0 \<and>
           (\<exists>p'. field pkg' ''version'' = Some (JStr p') \<and>
                 specCompare (components p') (components h) = 0) \<and>
           (\<exists>m'. field man' ''version'' = Some (JStr m') \<and>
                 specCompare (components m') (components h) = 0) \<and>
           trace w' = trace w
             @ (if specCompare (components p) (components h) < 0
                then [WriteFile pkgPath (Json (JObj pkg'))] else [])
             @ (if specCompare (components m) (components h) < 0
                then [WriteFile manPath (Json (JObj man'))] else [])"
proof -
  have ref: "compareVersions p m = specCompare (components p) (components m)"
    using assms by (simp add: compareVersions_refines)
  consider (gt) "compareVersions p m > 0" | (eq) "compareVersions p m = 0"
    | (lt) "compareVersions p m < 0"
    by linarith
  then show ?thesis
  proof cases
    case gt
    then have "specCompare (components m) (components p) < 0"
      using ref specCompare_flip [of "components p" "components m"] by simp
    then show ?thesis
      using sync_higher_package [OF assms(3,4) gt]
      by (simp add: specCompare_refl field_setField writeFileSync_def assms(3))
  next
    case eq
    then have "specCompare (components m) (components p) = 0"
      using ref specCompare_flip [of "components p" "components m"] by simp
    then show ?thesis
      using sync_equal [OF assms(3,4) eq]
      by (simp add: specCompare_refl assms(3,4))
  next
    case lt
    then have "specCompare (components p) (components m) < 0"
      using ref by simp
    then show ?thesis
      using sync_higher_manifest [OF assms(3,4) lt]
      by (simp add: specCompare_refl field_setField writeFileSync_def assms(4))
  qed
qed

text \<open>The scenario of the specification: project descriptor at 1.0.1, manifest at 1.0.0.\<close>

theorem synchronizeVersions_maximum_witness:
  "validVersion ''1.0.1'' \<and> validVersion ''1.0.0'' \<and>
   (\<exists>pkg' man' w'.
      synchronizeVersions
        [(''name'', JStr ''my-ext''), (''version'', JStr ''1.0.1'')]
        [(''name'', JStr ''My Ext''), (''version'', JStr ''1.0.0'')]
        ''package.json'' ''public/manifest.json'' \<lparr>files = Map.empty, trace = []\<rparr>
      = Inr (''1.0.1'', pkg', man', w') \<and>
      (\<exists>p'. field pkg' ''version'' = Some (JStr p') \<and>
            specCompare (components p') (components ''1.0.1'') = 0) \<and>
      (\<exists>m'. field man' ''version'' = Some (JStr m') \<and>
            specCompare (components m') (components ''1.0.1'') = 0) \<and>
      trace w' = [WriteFile ''public/manifest.json'' (Json (JObj man'))])"
proof -
  let ?pkg = "[(''name'', JStr ''my-ext''), (''version'', JStr ''1.0.1'')]"
  let ?man = "[(''name'', JStr ''My Ext''), (''version'', JStr ''1.0.0'')]"
  let ?w = "\<lparr>files = Map.empty, trace = []\<rparr>"
  have v1: "validVersion ''1.0.1''" and v2: "validVersion ''1.0.0''"
    by (simp_all add: version_eval)
  have f1: "field ?pkg ''version'' = Some (JStr ''1.0.1'')"
    and f2: "field ?man ''version'' = Some (JStr ''1.0.0'')"
    by (simp_all add: field_def)
  have c10: "specCompare (components ''1.0.1'') (components ''1.0.0'') = 1"
    and c01: "specCompare (components ''1.0.0'') (components ''1.0.1'') = - 1"
    and c11: "specCompare (components ''1.0.1'') (components ''1.0.1'') = 0"
    by (simp_all add: version_eval)
  from synchronizeVersions_maximum
         [OF v1 v2 f1 f2, of "''package.json''" "''public/manifest.json''" ?w]
  obtain h pkg' man' w' where
    r: "synchronizeVersions ?pkg ?man ''package.json'' ''public/manifest.json'' ?w
          = Inr (h, pkg', man', w')"
    and h: "h = ''1.0.1'' \<or> h = ''1.0.0''"
    and ub: "specCompare (components ''1.0.1'') (components h) \<le> 0"
    and pv: "\<exists>p'. field pkg' ''version'' = Some (JStr p') \<and>
                  specCompare (components p') (components h) = 0"
    and mv: "\<exists>m'. field man' ''version'' = Some (JStr m') \<and>
                  specCompare (components m') (components h) = 0"
    and tr: "trace w' = trace ?w
             @ (if specCompare (components ''1.0.1'') (components h) < 0
                then [WriteFile ''package.json'' (Json (JObj pkg'))] else [])
             @ (if specCompare (components ''1.0.0'') (components h) < 0
                then [WriteFile ''public/manifest.json'' (Json (JObj man'))] else [])"
    by blast
  have hh: "h = ''1.0.1''"
    using h ub c10 by auto
  have tr': "trace w' = [WriteFile ''public/manifest.json'' (Json (JObj man'))]"
    using tr c01 c11 by (simp add: hh)
  show ?thesis
    using v1 v2 r pv mv tr' unfolding hh by blast
qed

text \<open>
  Claim C9. \<^verbatim>\<open>synchronizeVersions\<close> is idempotent on valid VersionStrings: a second call on
  the descriptors and the state the first call leaves returns the same version and
  leaves the descriptors and the state (files and recorded writes) as they are, so the
  pair of persisted versions after two calls is the pair after one. When the two
  versions already compare equal, the first call changes nothing and writes nothing.
\<close>

theorem synchronizeVersions_idempotent:
  assumes "validVersion p" and "validVersion m"
      and "field pkg ''version'' = Some (JStr p)" and "field man ''version'' = Some (JStr m)"
  shows "\<exists>h pkg' man' w'.
           synchronizeVersions pkg man pkgPath manPath w = Inr (h, pkg', man', w') \<and>
           synchronizeVersions pkg' man' pkgPath manPath w' = Inr (h, pkg', man', w') \<and>
           (specCompare (components p) (components m) = 0 \<longrightarrow>
              pkg' = pkg \<and> man' = man \<and> w' = w)"
proof -
  have ref: "compareVersions p m = specCompare (components p) (components m)"
    using assms by (simp add: compareVersions_refines)
  consider (gt) "compareVersions p m > 0" | (eq) "compareVersions p m = 0"
    | (lt) "compareVersions p m < 0"
    by linarith
  then show ?thesis
  proof cases
    case gt
    let ?man = "setField ''version'' (JStr p) man"
    let ?w = "writeFileSync manPath (Json (JObj ?man)) w"
    have first: "synchronizeVersions pkg man pkgPath manPath w = Inr (p, pkg, ?man, ?w)"
      by (rule sync_higher_package [OF assms(3,4) gt])
    have "synchronizeVersions pkg ?man pkgPath manPath ?w = Inr (p, pkg, ?man, ?w)"
      by (rule sync_equal [OF assms(3) field_setField compareVersions_refl])
    with first gt ref show ?thesis by simp
  next
    case eq
    have first: "synchronizeVersions pkg man pkgPath manPath w = Inr (p, pkg, man, w)"
      by (rule sync_equal [OF assms(3,4) eq])
    then show ?thesis by simp
  next
    case lt
    let ?pkg = "setField ''version'' (JStr m) pkg"
    let ?w = "writeFileSync pkgPath (Json (JObj ?pkg)) w"
    have first: "synchronizeVersions pkg man pkgPath manPath w = Inr (m, ?pkg, man, ?w)"
      by (rule sync_higher_manifest [OF assms(3,4) lt])
    have "synchronizeVersions ?pkg man pkgPath manPath ?w = Inr (m, ?pkg, man, ?w)"
      by (rule sync_equal [OF field_setField assms(4) compareVersions_refl])
    with first lt ref show ?thesis by simp
  qed
qed

theorem synchronizeVersions_idempotent_witness:
  "validVersion ''1.0'' \<and> validVersion ''1.0.0'' \<and>
   specCompare (components ''1.0'') (components ''1.0.0'') = 0 \<and>
   (\<exists>h. synchronizeVersions
          [(''name'', JStr ''my-ext''), (''version'', JStr ''1.0'')]
          [(''name'', JStr ''My Ext''), (''version'', JStr ''1.0.0'')]
          ''package.json'' ''public/manifest.json'' \<lparr>files = Map.empty, trace = []\<rparr>
        = Inr (h, [(''name'', JStr ''my-ext''), (''version'', JStr ''1.0'')],
                  [(''name'', JStr ''My Ext''), (''version'', JStr ''1.0.0'')],
                  \<lparr>files = Map.empty, trace = []\<rparr>))"
proof -
  let ?pkg = "[(''name'', JStr ''my-ext''), (''version'', JStr ''1.0'')]"
  let ?man = "[(''name'', JStr ''My Ext''), (''version'', JStr ''1.0.0'')]"
  have v1: "validVersion ''1.0''" and v2: "validVersion ''1.0.0''"
    by (simp_all add: version_eval)
  have f1: "field ?pkg ''version'' = Some (JStr ''1.0'')"
    and f2: "field ?man ''version'' = Some (JStr ''1.0.0'')"
    by (simp_all add: field_def)
  have tie: "specCompare (components ''1.0'') (components ''1.0.0'') = 0"
    by (simp add: version_eval)
  show ?thesis
    using synchronizeVersions_idempotent [OF v1 v2 f1 f2, of "''package.json''" "''public/manifest.json''"
                "\<lparr>files = Map.empty, trace = []\<rparr>"] v1 v2 tie
    by auto
qed

text \<open>
  Claim C10. For valid VersionStrings that differ only by trailing zero components,
  \<^verbatim>\<open>compareVersions\<close> is 0; \<^verbatim>\<open>synchronizeVersions\<close> then returns the project descriptor's
  string itself, with both descriptors and the state unchanged (no write). The archive
  name that \<^verbatim>\<open>main\<close> builds from the returned version therefore carries the project
  descriptor's text, and differs from the name built from the manifest's text when the
  two texts differ; it is the name under which the packaging step, run without warnings
  on that manifest and version, creates the archive.
\<close>

theorem trailing_zeros_tie:
  assumes "validVersion p" and "validVersion m" and "differOnlyByTrailingZeros p m"
      and "field pkg ''version'' = Some (JStr p)" and "field man ''version'' = Some (JStr m)"
      and "field man ''name'' = Some (JStr name)"
  shows "compareVersions p m = 0 \<and>
         synchronizeVersions pkg man pkgPath manPath w = Inr (p, pkg, man, w) \<and>
         zipFileName name p = slug name @ ''-v'' @ dotsToDashes p @ ''.zip'' \<and>
         (p \<noteq> m \<longrightarrow> zipFileName name p \<noteq> zipFileName name m) \<and>
         (\<not> existsSync w2 (zipFileName name p) \<longrightarrow>
            (\<exists>rest. trace (snd (packaging ext [] man p outDir w2))
                      = trace w2 @
                        CreateArchive (slug name @ ''-v'' @ dotsToDashes p @ ''.zip'') # rest))"
proof -
  have eq: "compareVersions p m = 0"
    using assms(1-3) by (simp add: compareVersions_refines trailing_zeros_compare)
  have inj: "zipFileName name p = zipFileName name m \<Longrightarrow> p = m"
    using dotsToDashes_inj [OF validVersion_no_dash [OF assms(1)] validVersion_no_dash [OF assms(2)]]
    by (simp add: zipFileName_def Let_def)
  have zn: "zipFileName name p = slug name @ ''-v'' @ dotsToDashes p @ ''.zip''"
    by (simp add: zipFileName_def Let_def)
  have pk: "\<not> existsSync w2 (zipFileName name p) \<Longrightarrow>
            \<exists>rest. trace (snd (packaging ext [] man p outDir w2))
                     = trace w2 @ CreateArchive (zipFileName name p) # rest"
    using packaging_first_call [OF assms(6), of "[]" w2 p ext outDir
            "fst (packaging ext [] man p outDir w2)" "snd (packaging ext [] man p outDir w2)"]
    by simp
  show ?thesis
    using eq sync_equal [OF assms(4,5) eq] inj zn pk by metis
qed

theorem trailing_zeros_tie_witness:
  "validVersion ''1.0'' \<and> validVersion ''1.0.0'' \<and>
   differOnlyByTrailingZeros ''1.0'' ''1.0.0'' \<and>
   compareVersions ''1.0'' ''1.0.0'' = 0 \<and>
   synchronizeVersions
          [(''name'', JStr ''my-ext''), (''version'', JStr ''1.0'')]
          [(''name'', JStr ''My Ext''), (''version'', JStr ''1.0.0'')]
          ''package.json'' ''public/manifest.json'' \<lparr>files = Map.empty, trace = []\<rparr>
     = Inr (''1.0'', [(''name'', JStr ''my-ext''), (''version'', JStr ''1.0'')],
                     [(''name'', JStr ''My Ext''), (''version'', JStr ''1.0.0'')],
                     \<lparr>files = Map.empty, trace = []\<rparr>) \<and>
   zipFileName ''My Ext'' ''1.0'' = ''my-ext-v1-0.zip'' \<and>
   zipFileName ''My Ext'' ''1.0'' \<noteq> zipFileName ''My Ext'' ''1.0.0'' \<and>
   (\<exists>rest. trace (snd (packaging plainExternals []
                          [(''name'', JStr ''My Ext''), (''version'', JStr ''1.0.0'')]
                          ''1.0'' ''dist'' \<lparr>files = Map.empty, trace = []\<rparr>))
             = CreateArchive ''my-ext-v1-0.zip'' # rest)"
proof -
  let ?pkg = "[(''name'', JStr ''my-ext''), (''version'', JStr ''1.0'')]"
  let ?man = "[(''name'', JStr ''My Ext''), (''version'', JStr ''1.0.0'')]"
  let ?w = "\<lparr>files = Map.empty, trace = []\<rparr>"
  have v1: "validVersion ''1.0''" and v2: "validVersion ''1.0.0''"
    by (simp_all add: version_eval)
  have d: "differOnlyByTrailingZeros ''1.0'' ''1.0.0''"
    by (simp add: differOnlyByTrailingZeros_def zeroExtension_def decimalValue_def)
  have f1: "field ?pkg ''version'' = Some (JStr ''1.0'')"
    and f2: "field ?man ''version'' = Some (JStr ''1.0.0'')"
    and f3: "field ?man ''name'' = Some (JStr ''My Ext'')"
    by (simp_all add: field_def)
  have s: "slug ''My Ext'' @ ''-v'' @ dotsToDashes ''1.0'' @ ''.zip'' = ''my-ext-v1-0.zip''"
    by code_simp
  note r = trailing_zeros_tie [OF v1 v2 d f1 f2 f3, of "''package.json''" "''public/manifest.json''"
                  ?w ?w plainExternals "''dist''"]
  have a: "compareVersions ''1.0'' ''1.0.0'' = 0"
    using r by blast
  have b: "synchronizeVersions ?pkg ?man ''package.json'' ''public/manifest.json'' ?w
           = Inr (''1.0'', ?pkg, ?man, ?w)"
    using r by blast
  have "zipFileName ''My Ext'' ''1.0'' = slug ''My Ext'' @ ''-v'' @ dotsToDashes ''1.0'' @ ''.zip''"
    using r by blast
  then have c: "zipFileName ''My Ext'' ''1.0'' = ''my-ext-v1-0.zip''"
    using s by (simp only:)
  have "''1.0'' \<noteq> ''1.0.0''"
    by simp
  then have e: "zipFileName ''My Ext'' ''1.0'' \<noteq> zipFileName ''My Ext'' ''1.0.0''"
    using r by blast
  have "\<not> existsSync ?w (zipFileName ''My Ext'' ''1.0'')"
    by (simp add: existsSync_def)
  then have "\<exists>rest. trace (snd (packaging plainExternals [] ?man ''1.0'' ''dist'' ?w))
                    = trace ?w @
                      CreateArchive (slug ''My Ext'' @ ''-v'' @ dotsToDashes ''1.0'' @ ''.zip'') # rest"
    using r by blast
  then have g: "\<exists>rest. trace (snd (packaging plainExternals [] ?man ''1.0'' ''dist'' ?w))
                    = CreateArchive ''my-ext-v1-0.zip'' # rest"
    unfolding s by simp
  show ?thesis
    using v1 v2 d a b c e g by blast
qed

text \<open>
  Claim C3, as stated, fails: a manifest without \<^verbatim>\<open>manifest_version\<close> and without
  \<^verbatim>\<open>version\<close> has a validation error, and the build has rewritten the manifest file
  (with \<^verbatim>\<open>manifest_version\<close> filled in) by the time it aborts.
\<close>

theorem validation_errors_manifest_written:
  "fst (buildMain plainExternals
         (projectWith [(''name'', JStr ''my-ext''), (''version'', JStr ''1.0.0'')]
                      [(''name'', JStr ''My Ext'')]))
     = ValidationFailed [''Missing required '' @ quoted ''version'' @ '' field''] \<and>
   trace (snd (buildMain plainExternals
         (projectWith [(''name'', JStr ''my-ext''), (''version'', JStr ''1.0.0'')]
                      [(''name'', JStr ''My Ext'')])))
     = [WriteFile ''public/manifest.json''
          (Json (JObj [(''name'', JStr ''My Ext''), (''manifest_version'', JNum 3)]))]"
  by (simp add: build_eval)

text \<open>
  Claim C3, amended. When the validation yields one or more errors, the build ends with
  the validation failure and the state the validation leaves. The only file-system call
  before the abort is the rewrite of the manifest with the filled-in fields, made exactly
  when an auto-fill took place in that validation; no other path is touched.
\<close>

theorem validation_errors_abort:
  assumes "loadConfigs ext w = Inr cfg"
      and "validateManifest (manifestJson cfg) (packageJson cfg) (manifestJsonPath cfg) w
             = Inr (v, m, w1)"
      and "errors v \<noteq> []"
  shows "buildMain ext w = (ValidationFailed (errors v), w1) \<and>
         trace w1 = trace w @
           (if autoFilled (manifestJson cfg) (packageJson cfg)
            then [WriteFile ''public/manifest.json'' (Json (JObj m))] else []) \<and>
         (\<forall>p. p \<noteq> ''public/manifest.json'' \<longrightarrow> files w1 p = files w p)"
  using assms validateManifest_state [OF assms(2)] loadConfigs_path [OF assms(1)]
  by (simp add: buildMain_def writeFileSync_def)

theorem validation_errors_abort_witness:
  "loadConfigs plainExternals
     (projectWith [(''name'', JStr ''my-ext''), (''version'', JStr ''1.0.0'')]
                  [(''manifest_version'', JNum 3), (''name'', JStr ''My Ext''),
                   (''version'', JStr ''0.0'')])
     = Inr \<lparr>packageJson = [(''name'', JStr ''my-ext''), (''version'', JStr ''1.0.0'')],
            outputDir = ''dist'',
            manifestJson = [(''manifest_version'', JNum 3), (''name'', JStr ''My Ext''),
                            (''version'', JStr ''0.0'')],
            manifestJsonPath = ''public/manifest.json''\<rparr> \<and>
   fst (buildMain plainExternals
     (projectWith [(''name'', JStr ''my-ext''), (''version'', JStr ''1.0.0'')]
                  [(''manifest_version'', JNum 3), (''name'', JStr ''My Ext''),
                   (''version'', JStr ''0.0'')]))
     = ValidationFailed [''Version cannot be all zeros (e.g., 0 or 0.0.0.0)''] \<and>
   trace (snd (buildMain plainExternals
     (projectWith [(''name'', JStr ''my-ext''), (''version'', JStr ''1.0.0'')]
                  [(''manifest_version'', JNum 3), (''name'', JStr ''My Ext''),
                   (''version'', JStr ''0.0'')]))) = []"
proof -
  let ?pkg = "[(''name'', JStr ''my-ext''), (''version'', JStr ''1.0.0'')]"
  let ?man = "[(''manifest_version'', JNum 3), (''name'', JStr ''My Ext''),
               (''version'', JStr ''0.0'')]"
  let ?w = "projectWith ?pkg ?man"
  let ?cfg = "\<lparr>packageJson = ?pkg, outputDir = ''dist'', manifestJson = ?man,
               manifestJsonPath = ''public/manifest.json''\<rparr>"
  let ?v = "\<lparr>errors = [''Version cannot be all zeros (e.g., 0 or 0.0.0.0)''],
             warnings = [''Missing '' @ quoted ''description'' @ '' field required by Chrome Web Store'',
                         ''Missing '' @ quoted ''icons'' @ '' field required by Chrome Web Store'']\<rparr>"
  have l: "loadConfigs plainExternals ?w = Inr ?cfg"
    by (simp add: loadConfigs_def plainExternals_def projectWith_def existsSync_def
                  readJsonObject_def)
  have v: "validateManifest (manifestJson ?cfg) (packageJson ?cfg) (manifestJsonPath ?cfg) ?w
             = Inr (?v, ?man, ?w)"
    by (simp add: validateManifest_def checkManifestVersion_def checkName_def checkVersion_def
                  field_def version_eval)
  have e: "errors ?v \<noteq> []"
    by simp
  have n: "\<not> autoFilled (manifestJson ?cfg) (packageJson ?cfg)"
    by (simp add: autoFilled_def field_def)
  have t: "trace ?w = []"
    by (simp add: projectWith_def)
  note r = validation_errors_abort [OF l v e]
  have "buildMain plainExternals ?w = (ValidationFailed (errors ?v), ?w)"
    using r by blast
  then show ?thesis
    using l t by simp
qed

text \<open>
  Claim C6, as stated, fails over three builds in one directory, the first at version
  1.0.0, the second with both descriptors set to 1.0.1, the third with both set back to
  1.0.0: all three complete, the second prunes the archive of 1.0.0 when it creates that
  of 1.0.1, and the third, finding no archive of 1.0.0, creates it a second time.
\<close>

theorem archive_produced_twice:
  "fst (buildMain archivingExternals (setVersions ''1.0.0'' emptyWorld))
     = Completed \<and>
   fst (buildMain archivingExternals (setVersions ''1.0.1'' firstBuild)) = Completed \<and>
   fst (buildMain archivingExternals (setVersions ''1.0.0'' secondBuild)) = Completed \<and>
   trace thirdBuild
     = [Mkdir ''dist'',
        CreateArchive ''my-ext-v1-0-0.zip'',
        WriteFile ''.gitignore'' (Text (zipIgnorePattern ''my-ext'')),
        CreateArchive ''my-ext-v1-0-1.zip'', Unlink ''my-ext-v1-0-0.zip'',
        CreateArchive ''my-ext-v1-0-0.zip'', Unlink ''my-ext-v1-0-1.zip'']"
  by (simp add: thirdBuild_def secondBuild_def firstBuild_def run_eval)

text \<open>
  Claim C6, amended. In the packaging step of \<^verbatim>\<open>main\<close>, for a manifest whose name is a string
  (as it is after a validation without errors):
  \<^item> with a validation warning, or with the archive of the current slug and version on
    disk, the step is skipped: it ends normally and leaves the files and the recorded
    calls as they are. So the step creates, prunes and updates only without warnings and
    without that archive, and it produces no archive for a slug and version whose
    archive is on disk;
  \<^item> without warnings and without that archive, the first call of the step asks for the
    archive under the name of the slug and version, also when an earlier archive under
    that name is gone;
  \<^item> when the step then ends normally, its calls are that one, the removal of every other
    match of the slug's archive pattern, and the update of the ignore-list. Afterwards
    the archive holds the archiver's bytes, the removed matches are gone, every other
    path but the ignore-list is as before, and the ignore-list holds the slug's pattern:
    it is left alone when it held the pattern already, written when it was missing (or
    among the removed matches), and appended to otherwise. The step run again on that
    state is skipped;
  \<^item> when the write stream of the archive fails, the step ends with that error outside the
    \<^verbatim>\<open>catch\<close> of \<^verbatim>\<open>main\<close> after that one call, without pruning and without touching the
    ignore-list; if the stream could not be opened, no file has changed.
\<close>

theorem packaging_outcomes:
  assumes "field manifest ''name'' = Some (JStr name)"
  shows "(warns \<noteq> [] \<or> existsSync w (zipFileName name h) \<longrightarrow>
            packaging ext warns manifest h outDir w = (Finished, w)) \<and>
         (warns = [] \<and> \<not> existsSync w (zipFileName name h) \<longrightarrow>
            (\<exists>rest. trace (snd (packaging ext warns manifest h outDir w))
                      = trace w @ CreateArchive (zipFileName name h) # rest)) \<and>
         (\<forall>w'. warns = [] \<and> \<not> existsSync w (zipFileName name h) \<and>
               packaging ext warns manifest h outDir w = (Finished, w') \<longrightarrow>
            (\<exists>bytes old g ignored.
               archiver ext w outDir (zipFileName name h) = Closed bytes \<and>
               old = filter (\<lambda>file. file \<noteq> zipFileName name h)
                       (globSync ext (slug name @ ''-v*.zip'')
                          (snd (createZipArchive ext outDir (zipFileName name h) w))) \<and>
               trace w' = trace w @ [CreateArchive (zipFileName name h)] @ map Unlink old @ g \<and>
               files w' (zipFileName name h) = Some (File (Text bytes)) \<and>
               (\<forall>f \<in> set old. f \<noteq> ''.gitignore'' \<longrightarrow> files w' f = None) \<and>
               (\<forall>p. p \<noteq> zipFileName name h \<and> p \<notin> set old \<and> p \<noteq> ''.gitignore''
                    \<longrightarrow> files w' p = files w p) \<and>
               files w' ''.gitignore'' = Some (File ignored) \<and>
               includesStr (textOf ignored) (trim (zipIgnorePattern (slug name))) \<and>
               (g = [] \<and> files w ''.gitignore'' = Some (File ignored) \<or>
                g = [WriteFile ''.gitignore'' (Text (zipIgnorePattern (slug name)))] \<and>
                  ignored = Text (zipIgnorePattern (slug name)) \<and>
                  (files w ''.gitignore'' = None \<or> ''.gitignore'' \<in> set old) \<or>
                g = [AppendFile ''.gitignore'' (zipIgnorePattern (slug name))] \<and>
                  (\<exists>c. files w ''.gitignore'' = Some (File c) \<and>
                       \<not> includesStr (textOf c) (trim (zipIgnorePattern (slug name))) \<and>
                       ignored = Text (textOf c @ zipIgnorePattern (slug name)))) \<and>
               packaging ext warns manifest h outDir w' = (Finished, w'))) \<and>
         (\<forall>ex written. warns = [] \<and> \<not> existsSync w (zipFileName name h) \<and>
               archiver ext w outDir (zipFileName name h) = StreamError ex written \<longrightarrow>
            fst (packaging ext warns manifest h outDir w) = Crashed ex \<and>
            trace (snd (packaging ext warns manifest h outDir w))
              = trace w @ [CreateArchive (zipFileName name h)] \<and>
            (written = None \<longrightarrow> files (snd (packaging ext warns manifest h outDir w)) = files w))"
proof (intro conjI allI impI)
  assume "warns \<noteq> [] \<or> existsSync w (zipFileName name h)"
  then show "packaging ext warns manifest h outDir w = (Finished, w)"
    by (rule packaging_skip [OF assms])
next
  assume "warns = [] \<and> \<not> existsSync w (zipFileName name h)"
  then show "\<exists>rest. trace (snd (packaging ext warns manifest h outDir w))
                      = trace w @ CreateArchive (zipFileName name h) # rest"
    using packaging_first_call [OF assms, of warns w h ext outDir
            "fst (packaging ext warns manifest h outDir w)"
            "snd (packaging ext warns manifest h outDir w)"]
    by simp
next
  fix w'
  assume a: "warns = [] \<and> \<not> existsSync w (zipFileName name h) \<and>
             packaging ext warns manifest h outDir w = (Finished, w')"
  then have a1: "warns = []" and a2: "\<not> existsSync w (zipFileName name h)"
    and a3: "packaging ext warns manifest h outDir w = (Finished, w')"
    by blast+
  show "\<exists>bytes old g ignored.
          archiver ext w outDir (zipFileName name h) = Closed bytes \<and>
          old = filter (\<lambda>file. file \<noteq> zipFileName name h)
                  (globSync ext (slug name @ ''-v*.zip'')
                     (snd (createZipArchive ext outDir (zipFileName name h) w))) \<and>
          trace w' = trace w @ [CreateArchive (zipFileName name h)] @ map Unlink old @ g \<and>
          files w' (zipFileName name h) = Some (File (Text bytes)) \<and>
          (\<forall>f \<in> set old. f \<noteq> ''.gitignore'' \<longrightarrow> files w' f = None) \<and>
          (\<forall>p. p \<noteq> zipFileName name h \<and> p \<notin> set old \<and> p \<noteq> ''.gitignore''
               \<longrightarrow> files w' p = files w p) \<and>
          files w' ''.gitignore'' = Some (File ignored) \<and>
          includesStr (textOf ignored) (trim (zipIgnorePattern (slug name))) \<and>
          (g = [] \<and> files w ''.gitignore'' = Some (File ignored) \<or>
           g = [WriteFile ''.gitignore'' (Text (zipIgnorePattern (slug name)))] \<and>
             ignored = Text (zipIgnorePattern (slug name)) \<and>
             (files w ''.gitignore'' = None \<or> ''.gitignore'' \<in> set old) \<or>
           g = [AppendFile ''.gitignore'' (zipIgnorePattern (slug name))] \<and>
             (\<exists>c. files w ''.gitignore'' = Some (File c) \<and>
                  \<not> includesStr (textOf c) (trim (zipIgnorePattern (slug name))) \<and>
                  ignored = Text (textOf c @ zipIgnorePattern (slug name)))) \<and>
          packaging ext warns manifest h outDir w' = (Finished, w')"
    by (rule packaging_done [OF assms a1 a2 a3])
next
  fix ex written
  assume s: "warns = [] \<and> \<not> existsSync w (zipFileName name h) \<and>
             archiver ext w outDir (zipFileName name h) = StreamError ex written"
  note r = packaging_stream_error [OF assms, of warns w h ext outDir ex written]
  show "fst (packaging ext warns manifest h outDir w) = Crashed ex"
    using r s by blast
  show "trace (snd (packaging ext warns manifest h outDir w))
          = trace w @ [CreateArchive (zipFileName name h)]"
    using r s by blast
  show "files (snd (packaging ext warns manifest h outDir w)) = files w" if "written = None"
    using r s that by blast
qed

theorem packaging_outcomes_witness:
  "packaging archivingExternals [''Missing description''] (manifestAt ''1.0.0'') ''1.0.0'' ''dist''
       (setVersions ''1.0.0'' emptyWorld)
     = (Finished, setVersions ''1.0.0'' emptyWorld) \<and>
   fst (packaging archivingExternals [] (manifestAt ''1.0.1'') ''1.0.1'' ''dist''
          (setVersions ''1.0.1'' firstBuild)) = Finished \<and>
   trace (snd (packaging archivingExternals [] (manifestAt ''1.0.1'') ''1.0.1'' ''dist''
                 (setVersions ''1.0.1'' firstBuild)))
     = trace firstBuild @ [CreateArchive ''my-ext-v1-0-1.zip'', Unlink ''my-ext-v1-0-0.zip''] \<and>
   files (snd (packaging archivingExternals [] (manifestAt ''1.0.1'') ''1.0.1'' ''dist''
                 (setVersions ''1.0.1'' firstBuild))) ''my-ext-v1-0-1.zip''
     = Some (File (Text ''PK'')) \<and>
   files (snd (packaging archivingExternals [] (manifestAt ''1.0.1'') ''1.0.1'' ''dist''
                 (setVersions ''1.0.1'' firstBuild))) ''my-ext-v1-0-0.zip'' = None \<and>
   files (snd (packaging archivingExternals [] (manifestAt ''1.0.1'') ''1.0.1'' ''dist''
                 (setVersions ''1.0.1'' firstBuild))) ''.gitignore''
     = Some (File (Text (zipIgnorePattern ''my-ext''))) \<and>
   fst (packaging plainExternals [] slashManifest ''1.0.0'' ''dist'' slashProject)
     = Crashed (Error (''ENOENT: no such file or directory, open '' @
                       quoted ''read/write-v1-0-0.zip'')) \<and>
   trace (snd (packaging plainExternals [] slashManifest ''1.0.0'' ''dist'' slashProject))
     = [CreateArchive ''read/write-v1-0-0.zip''] \<and>
   files (snd (packaging plainExternals [] slashManifest ''1.0.0'' ''dist'' slashProject))
     = files slashProject"
proof -
  let ?w0 = "setVersions ''1.0.0'' emptyWorld"
  let ?w1 = "setVersions ''1.0.1'' firstBuild"
  let ?run = "packaging archivingExternals [] (manifestAt ''1.0.1'') ''1.0.1'' ''dist'' ?w1"
  let ?crash = "packaging plainExternals [] slashManifest ''1.0.0'' ''dist'' slashProject"
  have n0: "field (manifestAt ''1.0.0'') ''name'' = Some (JStr ''My Ext'')"
    and n1: "field (manifestAt ''1.0.1'') ''name'' = Some (JStr ''My Ext'')"
    by (simp_all add: field_def manifestAt_def)
  have ns: "field slashManifest ''name'' = Some (JStr ''Read/Write'')"
    by (simp add: field_def slashManifest_def)
  have zs: "zipFileName ''Read/Write'' ''1.0.0'' = ''read/write-v1-0-0.zip''"
    and z1: "zipFileName ''My Ext'' ''1.0.1'' = ''my-ext-v1-0-1.zip''"
    and sl: "slug ''My Ext'' = ''my-ext''"
    by code_simp+
  have first: "files firstBuild = [''package.json'' \<mapsto> File (Json (JObj [(''name'', JStr ''my-ext''), (''version'', JStr ''1.0.0'')])),
                                  ''public/manifest.json'' \<mapsto> File (Json (JObj (manifestAt ''1.0.0''))),
                                  ''dist'' \<mapsto> Dir, ''my-ext-v1-0-0.zip'' \<mapsto> File (Text ''PK''),
                                  ''.gitignore'' \<mapsto> File (Text (zipIgnorePattern ''my-ext''))]"
    by (simp add: firstBuild_def run_eval)
  text \<open>The step skipped for a warning.\<close>
  have a: "packaging archivingExternals [''Missing description''] (manifestAt ''1.0.0'') ''1.0.0''
             ''dist'' ?w0 = (Finished, ?w0)"
    using packaging_outcomes [OF n0, of "[''Missing description'']" ?w0 "''1.0.0''"
            archivingExternals "''dist''"]
    by simp
  text \<open>The step that runs to its end beside the archive of the version before.\<close>
  have fresh: "\<not> existsSync ?w1 (zipFileName ''My Ext'' ''1.0.1'')"
    by (simp add: z1 existsSync_def setVersions_def first)
  have inc: "includesStr (zipIgnorePattern ''my-ext'') (trim (zipIgnorePattern ''my-ext''))"
    using zipIgnorePattern_includes [of "[]" "''my-ext''"] by simp
  have fin: "fst ?run = Finished"
    using fresh
    by (simp add: packaging_def n1 z1 sl first setVersions_def createZipArchive_def
                  archivingExternals_def plainExternals_def existsSync_def unlinkSync_def
                  manageGitignore_def inc textOf_def Let_def)
  then have run: "?run = (Finished, snd ?run)"
    by (metis prod.collapse)
  have arch: "archiver archivingExternals ?w1 ''dist'' (zipFileName ''My Ext'' ''1.0.1'') = Closed ''PK''"
    by (simp add: z1 archivingExternals_def plainExternals_def)
  have old: "filter (\<lambda>file. file \<noteq> zipFileName ''My Ext'' ''1.0.1'')
               (globSync archivingExternals (slug ''My Ext'' @ ''-v*.zip'')
                  (snd (createZipArchive archivingExternals ''dist''
                          (zipFileName ''My Ext'' ''1.0.1'') ?w1)))
             = [''my-ext-v1-0-0.zip'']"
    by (simp add: z1 sl archivingExternals_def plainExternals_def createZipArchive_def
                  existsSync_def setVersions_def first)
  have ign: "files ?w1 ''.gitignore'' = Some (File (Text (zipIgnorePattern ''my-ext'')))"
    by (simp add: setVersions_def first)
  have "\<exists>bytes old g ignored.
          archiver archivingExternals ?w1 ''dist'' (zipFileName ''My Ext'' ''1.0.1'') = Closed bytes \<and>
          old = filter (\<lambda>file. file \<noteq> zipFileName ''My Ext'' ''1.0.1'')
                  (globSync archivingExternals (slug ''My Ext'' @ ''-v*.zip'')
                     (snd (createZipArchive archivingExternals ''dist''
                             (zipFileName ''My Ext'' ''1.0.1'') ?w1))) \<and>
          trace (snd ?run)
            = trace ?w1 @ [CreateArchive (zipFileName ''My Ext'' ''1.0.1'')] @ map Unlink old @ g \<and>
          files (snd ?run) (zipFileName ''My Ext'' ''1.0.1'') = Some (File (Text bytes)) \<and>
          (\<forall>f \<in> set old. f \<noteq> ''.gitignore'' \<longrightarrow> files (snd ?run) f = None) \<and>
          (\<forall>p. p \<noteq> zipFileName ''My Ext'' ''1.0.1'' \<and> p \<notin> set old \<and> p \<noteq> ''.gitignore''
               \<longrightarrow> files (snd ?run) p = files ?w1 p) \<and>
          files (snd ?run) ''.gitignore'' = Some (File ignored) \<and>
          includesStr (textOf ignored) (trim (zipIgnorePattern (slug ''My Ext''))) \<and>
          (g = [] \<and> files ?w1 ''.gitignore'' = Some (File ignored) \<or>
           g = [WriteFile ''.gitignore'' (Text (zipIgnorePattern (slug ''My Ext'')))] \<and>
             ignored = Text (zipIgnorePattern (slug ''My Ext'')) \<and>
             (files ?w1 ''.gitignore'' = None \<or> ''.gitignore'' \<in> set old) \<or>
           g = [AppendFile ''.gitignore'' (zipIgnorePattern (slug ''My Ext''))] \<and>
             (\<exists>c. files ?w1 ''.gitignore'' = Some (File c) \<and>
                  \<not> includesStr (textOf c) (trim (zipIgnorePattern (slug ''My Ext''))) \<and>
                  ignored = Text (textOf c @ zipIgnorePattern (slug ''My Ext'')))) \<and>
          packaging archivingExternals [] (manifestAt ''1.0.1'') ''1.0.1'' ''dist'' (snd ?run)
            = (Finished, snd ?run)"
    by (rule packaging_outcomes [OF n1, of "[]" ?w1 "''1.0.1''" archivingExternals "''dist''",
               THEN conjunct2, THEN conjunct2, THEN conjunct1, rule_format, of "snd ?run"])
       (intro conjI refl fresh run)
  then obtain bytes old g ignored where d:
    "archiver archivingExternals ?w1 ''dist'' (zipFileName ''My Ext'' ''1.0.1'') = Closed bytes"
    "old = filter (\<lambda>file. file \<noteq> zipFileName ''My Ext'' ''1.0.1'')
             (globSync archivingExternals (slug ''My Ext'' @ ''-v*.zip'')
                (snd (createZipArchive archivingExternals ''dist''
                        (zipFileName ''My Ext'' ''1.0.1'') ?w1)))"
    "trace (snd ?run) = trace ?w1 @ [CreateArchive (zipFileName ''My Ext'' ''1.0.1'')] @ map Unlink old @ g"
    "files (snd ?run) (zipFileName ''My Ext'' ''1.0.1'') = Some (File (Text bytes))"
    "\<forall>f \<in> set old. f \<noteq> ''.gitignore'' \<longrightarrow> files (snd ?run) f = None"
    "files (snd ?run) ''.gitignore'' = Some (File ignored)"
    "g = [] \<and> files ?w1 ''.gitignore'' = Some (File ignored) \<or>
     g = [WriteFile ''.gitignore'' (Text (zipIgnorePattern (slug ''My Ext'')))] \<and>
       ignored = Text (zipIgnorePattern (slug ''My Ext'')) \<and>
       (files ?w1 ''.gitignore'' = None \<or> ''.gitignore'' \<in> set old) \<or>
     g = [AppendFile ''.gitignore'' (zipIgnorePattern (slug ''My Ext''))] \<and>
       (\<exists>c. files ?w1 ''.gitignore'' = Some (File c) \<and>
            \<not> includesStr (textOf c) (trim (zipIgnorePattern (slug ''My Ext''))) \<and>
            ignored = Text (textOf c @ zipIgnorePattern (slug ''My Ext'')))"
    "packaging archivingExternals [] (manifestAt ''1.0.1'') ''1.0.1'' ''dist'' (snd ?run)
       = (Finished, snd ?run)"
    by (elim exE conjE) (rule that)
  have o: "old = [''my-ext-v1-0-0.zip'']"
    using d(2) old by simp
  have b: "bytes = ''PK''"
    using d(1) arch by simp
  have g: "g = [] \<and> ignored = Text (zipIgnorePattern ''my-ext'')"
    using d(7) ign inc o by (auto simp: sl textOf_def)
  have t: "trace (snd ?run) = trace firstBuild @ [CreateArchive ''my-ext-v1-0-1.zip'', Unlink ''my-ext-v1-0-0.zip'']"
    using d(3) o g by (simp add: z1 setVersions_def)
  have f1: "files (snd ?run) ''my-ext-v1-0-1.zip'' = Some (File (Text ''PK''))"
    using d(4) b by (simp add: z1)
  have f0: "files (snd ?run) ''my-ext-v1-0-0.zip'' = None"
    using d(5) o by simp
  have fg: "files (snd ?run) ''.gitignore'' = Some (File (Text (zipIgnorePattern ''my-ext'')))"
    using d(6) g by simp
  text \<open>The step whose write stream cannot be opened.\<close>
  have absent: "\<not> existsSync slashProject (zipFileName ''Read/Write'' ''1.0.0'')"
    by (simp add: zs existsSync_def slashProject_def projectWith_def)
  have err: "archiver plainExternals slashProject ''dist'' (zipFileName ''Read/Write'' ''1.0.0'')
             = StreamError (Error (''ENOENT: no such file or directory, open '' @
                                   quoted ''read/write-v1-0-0.zip'')) None"
    by (simp add: zs plainExternals_def)
  note c = packaging_outcomes [OF ns, of "[]" slashProject "''1.0.0''" plainExternals "''dist''"]
  have c1: "fst ?crash = Crashed (Error (''ENOENT: no such file or directory, open '' @
                                          quoted ''read/write-v1-0-0.zip''))"
    using c absent err by blast
  have "trace (snd ?crash) = trace slashProject @ [CreateArchive (zipFileName ''Read/Write'' ''1.0.0'')]"
    using c absent err by blast
  then have c2: "trace (snd ?crash) = [CreateArchive ''read/write-v1-0-0.zip'']"
    by (simp add: zs slashProject_def projectWith_def)
  have c3: "files (snd ?crash) = files slashProject"
    using c absent err by blast
  show ?thesis
    using a fin t f1 f0 fg c1 c2 c3 by simp
qed

text \<open>
  Claim C4 at the manifest version \<^verbatim>\<open>"0.abc"\<close> of an otherwise complete manifest: the
  loop leaves at the part \<^verbatim>\<open>abc\<close> with the flag \<^verbatim>\<open>allZero\<close> still set by the part \<^verbatim>\<open>0\<close>, and
  the check after the loop adds the all-zero error. The validation reports two errors for
  the one version, where the claim has exactly one. The same two errors are reported for
  \<^verbatim>\<open>"0.abc.1"\<close>, whose last part is not zero.
\<close>

theorem version_0_abc_two_errors:
  "map_sum id fst
     (validateManifest
        [(''manifest_version'', JNum 3), (''name'', JStr ''My Ext''),
         (''version'', JStr ''0.abc''), (''description'', JStr ''An extension''),
         (''icons'', JObj [(''128'', JStr ''icon.png'')])]
        [(''name'', JStr ''my-ext''), (''version'', JStr ''1.0.0'')]
        ''public/manifest.json''
        (projectWith [(''name'', JStr ''my-ext''), (''version'', JStr ''1.0.0'')]
           [(''manifest_version'', JNum 3), (''name'', JStr ''My Ext''),
            (''version'', JStr ''0.abc''), (''description'', JStr ''An extension''),
            (''icons'', JObj [(''128'', JStr ''icon.png'')])]))
   = Inr \<lparr>errors = [''Version parts must be integers'',
                      ''Version cannot be all zeros (e.g., 0 or 0.0.0.0)''],
           warnings = []\<rparr> \<and>
   versionErrors ''0.abc.1''
   = [''Version parts must be integers'', ''Version cannot be all zeros (e.g., 0 or 0.0.0.0)'']"
  by (simp add: validate_eval)

text \<open>
  Claim C5 at \<^verbatim>\<open>icons: null\<close> in an otherwise complete manifest: the validator does not
  return; the read of \<^verbatim>\<open>icons["128"]\<close> throws a TypeError, and the build ends with that
  exception. (For an array, a string, a number or a boolean the validator returns with
  the one warning, as the claim has it.)
\<close>

theorem icons_null_throws:
  "map_sum id fst
     (validateManifest
        [(''manifest_version'', JNum 3), (''name'', JStr ''My Ext''),
         (''version'', JStr ''1.0.0''), (''description'', JStr ''An extension''),
         (''icons'', JNull)]
        [(''name'', JStr ''my-ext''), (''version'', JStr ''1.0.0'')]
        ''public/manifest.json''
        (projectWith [(''name'', JStr ''my-ext''), (''version'', JStr ''1.0.0'')]
           [(''manifest_version'', JNum 3), (''name'', JStr ''My Ext''),
            (''version'', JStr ''1.0.0''), (''description'', JStr ''An extension''),
            (''icons'', JNull)]))
   = Inl (TypeError (''Cannot read properties of null (reading '' @ quoted ''128'' @ '')'')) \<and>
   fst (buildMain plainExternals
        (projectWith [(''name'', JStr ''my-ext''), (''version'', JStr ''1.0.0'')]
           [(''manifest_version'', JNum 3), (''name'', JStr ''My Ext''),
            (''version'', JStr ''1.0.0''), (''description'', JStr ''An extension''),
            (''icons'', JNull)]))
   = Fatal (TypeError (''Cannot read properties of null (reading '' @ quoted ''128'' @ '')''))"
  by (simp add: build_eval validate_eval)

text \<open>
  Claim C2 at a project descriptor at version \<^verbatim>\<open>"1.0"\<close> and a complete manifest at
  \<^verbatim>\<open>"1.0.0"\<close>: the build completes and creates the archive \<^verbatim>\<open>my-ext-v1-0.zip\<close>, named after
  the project descriptor's text; the manifest keeps its text, from which the publish
  script derives \<^verbatim>\<open>my-ext-v1-0-0.zip\<close>, a file that does not exist. With the manifest also
  at the path the publish script reads, the publish run fails at the archive check.
\<close>

theorem tied_versions_archive_not_found:
  "fst (buildMain plainExternals tiedProject) = Completed \<and>
   trace (snd (buildMain plainExternals tiedProject))
     = [Mkdir ''dist'', CreateArchive ''my-ext-v1-0.zip'',
        WriteFile ''.gitignore'' (Text (zipIgnorePattern ''my-ext''))] \<and>
   files (snd (buildMain plainExternals tiedProject)) ''public/manifest.json''
     = Some (File (Json (JObj tiedManifest))) \<and>
   publishZipFileName (JObj tiedManifest) = Inr ''my-ext-v1-0-0.zip'' \<and>
   files (snd (buildMain plainExternals tiedProject)) ''my-ext-v1-0-0.zip'' = None \<and>
   fst (publishMain idleRemote
          (publishState
             ((snd (buildMain plainExternals tiedProject))
                \<lparr>files := (files (snd (buildMain plainExternals tiedProject)))
                    (''static/manifest.json'' \<mapsto> File (Json (JObj tiedManifest)))\<rparr>)))
     = Failed (Error (''ZIP file '' @ green ''my-ext-v1-0-0.zip'' @
                      '' not found. Run build.js first.''))"
proof -
  let ?pkg = "[(''name'', JStr ''my-ext''), (''version'', JStr ''1.0'')]"
  let ?cfg = "\<lparr>packageJson = ?pkg, outputDir = ''dist'', manifestJson = tiedManifest,
               manifestJsonPath = ''public/manifest.json''\<rparr>"
  let ?w3 = "mkdirSync ''dist'' tiedProject"
  have l: "loadConfigs plainExternals tiedProject = Inr ?cfg"
    by (simp add: loadConfigs_def plainExternals_def tiedProject_def projectWith_def
                  existsSync_def readJsonObject_def)
  have v: "validateManifest (manifestJson ?cfg) (packageJson ?cfg) (manifestJsonPath ?cfg)
             tiedProject = Inr (\<lparr>errors = [], warnings = []\<rparr>, tiedManifest, tiedProject)"
    by (simp add: validate_eval tiedManifest_def)
  have "synchronizeVersions ?pkg tiedManifest ''package.json'' ''public/manifest.json''
          tiedProject = Inr (''1.0'', ?pkg, tiedManifest, tiedProject)"
    by (rule sync_equal [OF _ _ tied_compare]) (simp_all add: field_def tiedManifest_def)
  then have s: "synchronizeVersions (packageJson ?cfg) tiedManifest ''package.json''
             (manifestJsonPath ?cfg) tiedProject = Inr (''1.0'', ?pkg, tiedManifest, tiedProject)"
    by simp
  have b: "bundler plainExternals
             (if \<not> existsSync tiedProject (outputDir ?cfg)
              then mkdirSync (outputDir ?cfg) tiedProject else tiedProject) = (True, ?w3)"
    by (simp add: plainExternals_def existsSync_def tiedProject_def projectWith_def)
  have z: "zipFileName ''My Ext'' ''1.0'' = ''my-ext-v1-0.zip''" and sl: "slug ''My Ext'' = ''my-ext''"
    by code_simp+
  have p: "packaging plainExternals [] tiedManifest ''1.0'' ''dist'' ?w3
             = (Finished, writeFileSync ''.gitignore'' (Text (zipIgnorePattern ''my-ext''))
                        (snd (createZipArchive plainExternals ''dist'' ''my-ext-v1-0.zip'' ?w3)))"
    by (simp add: packaging_def field_def tiedManifest_def z sl createZipArchive_def
                  plainExternals_def manageGitignore_def mkdirSync_def tiedProject_def
                  projectWith_def existsSync_def Let_def)
  have run: "buildMain plainExternals tiedProject
             = (Completed, writeFileSync ''.gitignore'' (Text (zipIgnorePattern ''my-ext''))
                        (snd (createZipArchive plainExternals ''dist'' ''my-ext-v1-0.zip'' ?w3)))"
    using buildMain_packaging [OF l v _ s b] p by simp
  have name: "publishZipFileName (JObj tiedManifest) = Inr ''my-ext-v1-0-0.zip''"
    by code_simp
  show ?thesis
    unfolding run
    by (simp add: name writeFileSync_def createZipArchive_def plainExternals_def mkdirSync_def
                  tiedProject_def projectWith_def publishMain_def publishState_def unset_def
                  existsSync_def)
qed

text \<open>
  Claim C7 at a token reply with an error status and the body
  \<^verbatim>\<open>{"error": "invalid_request", "error_description": "Invalid refresh token"}\<close>, with a
  refresh token in the environment: the failure is not shaped as \<^verbatim>\<open>invalid_grant\<close>, yet
  \<^verbatim>\<open>getAccessToken\<close> throws an error with the message that \<^verbatim>\<open>ensureAccessToken\<close> tests for,
  so the run authorizes again and fetches a second token instead of failing. (The
  lemmas \<open>invalid_grant_reauthorizes_once\<close> and \<open>other_failure_propagates\<close> give the
  two halves of the claim for the replies without this collision.)
\<close>

theorem colliding_description_reauthorizes:
  "fst (getAccessToken collidingRemote (publishState emptyWorld))
     = Rejected (Error ''Invalid refresh token'') \<and>
   fst (ensureAccessToken collidingRemote (publishState emptyWorld))
     = Resolved (Some (JStr ''ya29.token'')) \<and>
   authorizations (snd (ensureAccessToken collidingRemote (publishState emptyWorld))) = 1 \<and>
   tokenFetches (snd (ensureAccessToken collidingRemote (publishState emptyWorld))) = 2"
  by (simp add: publish_eval collidingRemote_def emptyWorld_def)

text \<open>
  Claim C8, as stated, fails for a reply with an error status whose body is not JSON
  (the error page of a gateway): \<^verbatim>\<open>response.json()\<close> rejects before the status is looked
  at, and the error that ends the upload is the one of the parser, whose message here
  does not hold the body.
\<close>

theorem upload_gateway_error_page:
  "fst (uploadToChromeWebStore gatewayErrorRemote ''my-ext-v1-0-0.zip'' ''extension''
          (publishState archiveWorld))
     = Rejected (SyntaxError ''Unexpected token < in JSON at position 0'') \<and>
   \<not> includesStr ''Unexpected token < in JSON at position 0''
                   ''<html><body>502 Bad Gateway</body></html>''"
  by (simp add: uploadToChromeWebStore_def publish_eval gatewayErrorRemote_def archiveWorld_def
                startsWith_def)

text \<open>
  Claim C8, amended. Once the access token is there and the archive is read, for every
  reply of the upload endpoint:
  \<^item> the upload succeeds if and only if the reply has a success status, its body is JSON,
    and the \<^verbatim>\<open>uploadState\<close> of the body is \<^verbatim>\<open>"SUCCESS"\<close>;
  \<^item> every other reply makes the upload fail with an error;
  \<^item> when the body is JSON, and is not \<^verbatim>\<open>null\<close> under a success status, that error is the
    "Upload failed" error, whose message holds \<^verbatim>\<open>JSON.stringify\<close> of the body;
  \<^item> when the body is not JSON, that error is the one \<^verbatim>\<open>response.json()\<close> rejects with.
\<close>

theorem upload_outcome:
  assumes "ensureAccessToken rem s = (Resolved accessToken, s1)"
      and "files (disk s1) zipFilePath = Some (File zipBytes)"
      and "uploadEndpoint rem = Response r"
  shows "(fst (uploadToChromeWebStore rem zipFilePath extensionId s) = Resolved () \<longleftrightarrow>
            ok r \<and> (\<exists>result. jsonBody r = Inr result \<and>
                              getProp result ''uploadState'' = Inr (Some (JStr ''SUCCESS'')))) \<and>
         (fst (uploadToChromeWebStore rem zipFilePath extensionId s) \<noteq> Resolved () \<longrightarrow>
            (\<exists>ex. fst (uploadToChromeWebStore rem zipFilePath extensionId s) = Rejected ex)) \<and>
         (\<forall>result. jsonBody r = Inr result \<and>
                   \<not> (ok r \<and> getProp result ''uploadState'' = Inr (Some (JStr ''SUCCESS''))) \<and>
                   (result \<noteq> JNull \<or> \<not> ok r) \<longrightarrow>
            fst (uploadToChromeWebStore rem zipFilePath extensionId s)
              = Rejected (uploadFailed result) \<and>
            includesStr (message (uploadFailed result)) (stringify result)) \<and>
         (\<forall>ex. jsonBody r = Inl ex \<longrightarrow>
            fst (uploadToChromeWebStore rem zipFilePath extensionId s) = Rejected ex)"
proof (cases "jsonBody r")
  case (Inl ex)
  then show ?thesis
    using uploadToChromeWebStore_unparsed [OF assms Inl, of extensionId] by simp
next
  case (Inr result)
  note u = uploadToChromeWebStore_response [OF assms Inr, of extensionId]
  show ?thesis
  proof (cases "ok r")
    case False
    then show ?thesis
      using u Inr uploadFailed_carries [of result] by simp
  next
    case True
    show ?thesis
    proof (cases "getProp result ''uploadState''")
      case (Inl ex)
      then have "result = JNull"
        by (cases result) simp_all
      then show ?thesis
        using u Inr Inl True by simp
    next
      case st: (Inr st)
      then show ?thesis
        using u Inr True uploadFailed_carries [of result] by simp
    qed
  qed
qed

theorem upload_outcome_witness:
  "ensureAccessToken failureRemote (publishState archiveWorld)
     = (Resolved (Some (JStr ''ya29.token'')), (publishState archiveWorld)\<lparr>tokenFetches := 1\<rparr>) \<and>
   fst (uploadToChromeWebStore failureRemote ''my-ext-v1-0-0.zip'' ''extension''
          (publishState archiveWorld))
     = Rejected (uploadFailed (JObj [(''uploadState'', JStr ''FAILURE'')])) \<and>
   includesStr (message (uploadFailed (JObj [(''uploadState'', JStr ''FAILURE'')])))
               (stringify (JObj [(''uploadState'', JStr ''FAILURE'')])) \<and>
   fst (uploadToChromeWebStore failureRemote ''my-ext-v1-0-0.zip'' ''extension''
          (publishState archiveWorld)) \<noteq> Resolved () \<and>
   fst (uploadToChromeWebStore gatewayErrorRemote ''my-ext-v1-0-0.zip'' ''extension''
          (publishState archiveWorld))
     = Rejected (SyntaxError ''Unexpected token < in JSON at position 0'')"
proof -
  let ?s = "publishState archiveWorld"
  let ?result = "JObj [(''uploadState'', JStr ''FAILURE'')]"
  let ?r = "\<lparr>ok = True, body = stringify ?result, jsonBody = Inr ?result\<rparr>"
  let ?page = "\<lparr>ok = False, body = ''<html><body>502 Bad Gateway</body></html>'',
               jsonBody = Inl (SyntaxError ''Unexpected token < in JSON at position 0'')\<rparr>"
  have t: "ensureAccessToken failureRemote ?s
             = (Resolved (Some (JStr ''ya29.token'')), ?s\<lparr>tokenFetches := 1\<rparr>)"
    by (simp add: publish_eval failureRemote_def)
  have tg: "ensureAccessToken gatewayErrorRemote ?s
             = (Resolved (Some (JStr ''ya29.token'')), ?s\<lparr>tokenFetches := 1\<rparr>)"
    by (simp add: publish_eval gatewayErrorRemote_def)
  have f: "files (disk (?s\<lparr>tokenFetches := 1\<rparr>)) ''my-ext-v1-0-0.zip'' = Some (File (Text ''PK''))"
    by (simp add: publishState_def archiveWorld_def)
  have u: "uploadEndpoint failureRemote = Response ?r"
    by (simp add: failureRemote_def jsonReply_def)
  have ug: "uploadEndpoint gatewayErrorRemote = Response ?page"
    by (simp add: gatewayErrorRemote_def)
  have j: "jsonBody ?r = Inr ?result \<and>
           \<not> (ok ?r \<and> getProp ?result ''uploadState'' = Inr (Some (JStr ''SUCCESS''))) \<and>
           (?result \<noteq> JNull \<or> \<not> ok ?r)"
    by (simp add: field_def)
  note failure = upload_outcome [OF t f u, of "''extension''"]
  note page = upload_outcome [OF tg f ug, of "''extension''"]
  have a: "fst (uploadToChromeWebStore failureRemote ''my-ext-v1-0-0.zip'' ''extension'' ?s)
             = Rejected (uploadFailed ?result) \<and>
           includesStr (message (uploadFailed ?result)) (stringify ?result)"
    by (rule failure [THEN conjunct2, THEN conjunct2, THEN conjunct1, rule_format, OF j])
  have b: "fst (uploadToChromeWebStore failureRemote ''my-ext-v1-0-0.zip'' ''extension'' ?s)
             \<noteq> Resolved ()"
    using a by simp
  have c: "fst (uploadToChromeWebStore gatewayErrorRemote ''my-ext-v1-0-0.zip'' ''extension'' ?s)
             = Rejected (SyntaxError ''Unexpected token < in JSON at position 0'')"
    by (rule page [THEN conjunct2, THEN conjunct2, THEN conjunct2, rule_format]) simp
  show ?thesis
    using t a b c by simp
qed

end
